theory Spec2Isabelle
  imports Main "HOL-Library.Word"
begin

section \<open>The Wayland window of the video sink (gst-libs/gst/wayland/gstwlwindow.c)\<close>

text \<open>
  The window object keeps two surfaces (the area surface and the video subsurface), the
  geometry that positions them, and the two buffer slots of the presentation state
  machine. The C code talks to the compositor through Wayland requests and to other
  threads through GLib mutexes and condition variables. In this embedding every such
  call is recorded, in program order, in the field \<open>effects\<close> of the window state, so
  that "no commit is issued" or "the commit happens after the unlock" are statements
  about that list. Of the logging only warnings are recorded.

  \<^verbatim>\<open>gint\<close>, \<^verbatim>\<open>int32_t\<close> and \<^verbatim>\<open>guint\<close> are 32-bit words; signed comparisons of the source
  are written with the signed order on words.
\<close>

type_synonym gint = "32 word"
type_synonym guint = "32 word"
type_synonym gint64 = "64 word"

text \<open>A \<^verbatim>\<open>GstWlBuffer *\<close> is identified by a number; a null pointer is \<open>None\<close>.\<close>

type_synonym GstWlBuffer = nat

record GstVideoRectangle =
  rect_x :: gint
  rect_y :: gint
  rect_w :: gint
  rect_h :: gint

text \<open>The fields of \<^verbatim>\<open>GstVideoInfo\<close> that the window reads.\<close>

record GstVideoInfo =
  info_width :: gint
  info_height :: gint
  info_par_n :: gint
  info_par_d :: gint
  info_has_alpha :: bool

record GstVideoCropMeta =
  crop_x :: guint
  crop_y :: guint
  crop_width :: guint
  crop_height :: guint

text \<open>Of a \<^verbatim>\<open>GstBuffer\<close> the window only asks for its optional crop metadata.\<close>

record GstBuffer =
  video_crop_meta :: "GstVideoCropMeta option"

datatype wl_output_transform =
    WL_OUTPUT_TRANSFORM_NORMAL
  | WL_OUTPUT_TRANSFORM_90
  | WL_OUTPUT_TRANSFORM_180
  | WL_OUTPUT_TRANSFORM_270
  | WL_OUTPUT_TRANSFORM_FLIPPED
  | WL_OUTPUT_TRANSFORM_FLIPPED_90
  | WL_OUTPUT_TRANSFORM_FLIPPED_180
  | WL_OUTPUT_TRANSFORM_FLIPPED_270

datatype surface = Area_surface | Video_surface

datatype mutex = Window_lock | Commit_lock | Configure_mutex | Render_lock

datatype gcond = Redraw_wait | Configure_cond

datatype gsignal = CLOSED | MAP

datatype callback = Frame_callback | Commit_callback

datatype proxy =
    Xdg_toplevel | Xdg_surface | Video_viewport | Area_viewport | Surface_sync
  | Blend_func | Video_subsurface | Area_subsurface | Video_surface_wrapper
  | Area_surface_wrapper | Video_surface_proxy | Area_surface_proxy

text \<open>
  One constructor per external call the modelled functions make. The names follow the
  calls: \<open>Surface_commit\<close> is \<^verbatim>\<open>wl_surface_commit\<close>, \<open>Surface_frame\<close> is
  \<^verbatim>\<open>wl_surface_frame\<close> with the frame listener added, \<open>Display_sync\<close> is
  \<^verbatim>\<open>gst_wl_display_sync\<close> with the commit listener. \<open>Surface_attach s (Some b)\<close> is
  \<^verbatim>\<open>gst_wl_buffer_attach\<close> of buffer \<open>b\<close> to surface \<open>s\<close>, \<open>Surface_attach s None\<close> is
  \<^verbatim>\<open>wl_surface_attach\<close> with a null buffer. \<open>Buffer_ref\<close> and \<open>Buffer_unref\<close> are
  \<^verbatim>\<open>gst_wl_buffer_ref_gst_buffer\<close> and \<^verbatim>\<open>gst_wl_buffer_unref_buffer\<close>. \<open>Get_release b\<close>
  is the creation of a release object for \<open>b\<close> with its listener. The area surface and
  its proxy wrapper are the same surface here, and so are the video surface and its
  wrapper.
\<close>

datatype effect =
    Mutex_lock mutex
  | Mutex_unlock mutex
  | Cond_signal gcond
  | Cond_wait gcond mutex
  | Cond_wait_until gcond mutex gint64
  | Buffer_ref GstWlBuffer
  | Buffer_unref GstWlBuffer
  | Surface_commit surface
  | Surface_attach surface "GstWlBuffer option"
  | Surface_frame surface
  | Surface_set_buffer_scale surface guint
  | Surface_damage_buffer surface
  | Surface_set_buffer_transform surface wl_output_transform
  | Surface_set_opaque_region surface
  | Subsurface_set_sync
  | Subsurface_set_desync
  | Subsurface_set_position surface gint gint
  | Viewport_set_destination surface gint gint
  | Viewport_set_source gint gint gint gint
  | Border_attach bool gint gint
  | Get_release GstWlBuffer
  | Display_sync
  | Display_flush
  | Callback_destroy callback
  | Signal_emit gsignal
  | Xdg_ack_configure guint
  | Xdg_set_app_id
  | Xdg_set_fullscreen bool
  | Fullscreen_present_surface
  | Add_listener proxy
  | Pointer_add_listener
  | Touch_add_listener
  | Proxy_destroy proxy
  | Cond_clear gcond
  | Mutex_clear mutex
  | Display_unref
  | Log_warning

text \<open>
  \<^verbatim>\<open>GstWlWindowPrivate\<close>. A pointer field whose target is not modelled is a boolean:
  \<open>True\<close> when the pointer is not null.
\<close>

record window =
  area_subsurface :: bool
  area_viewport :: bool
  video_viewport :: bool
  xdg_surface :: bool
  xdg_toplevel :: bool
  surface_sync :: bool
  blend_func :: bool
  configured :: bool
  redraw_pending :: bool
  render_rectangle :: GstVideoRectangle
  video_rectangle :: GstVideoRectangle
  video_width :: gint
  video_height :: gint
  scaled_width :: gint
  buffer_transform :: wl_output_transform
  is_area_surface_mapped :: bool
  next_buffer :: "GstWlBuffer option"
  next_video_info :: "GstVideoInfo option"
  staged_buffer :: "GstWlBuffer option"
  clear_window :: bool
  frame_callback_set :: bool
  commit_callback_set :: bool
  src_x :: gint
  src_y :: gint
  src_width :: gint
  src_height :: gint
  scale :: guint
  pointer_x :: gint
  pointer_y :: gint
  fullscreen_width :: gint
  fullscreen_height :: gint
  effects :: "effect list"

text \<open>
  What the window code reads from collaborators that are defined elsewhere: the
  \<^verbatim>\<open>GstWlDisplay\<close> getters, the \<^verbatim>\<open>used_by_compositor\<close> flag of a \<^verbatim>\<open>GstWlBuffer\<close>, the
  platform macro \<^verbatim>\<open>HAS_DCSS\<close>, the library functions \<^verbatim>\<open>gst_video_center_rect\<close> and
  \<^verbatim>\<open>gst_util_uint64_scale_int_round\<close>, and the monotonic clock. They are parameters of the
  model; the theorems hold for every value of them.
\<close>

record env =
  viewporter :: bool
  single_pixel_buffer_manager :: bool
  xdg_wm_base :: bool
  fullscreen_shell :: bool
  xdg_surface_created :: bool
  xdg_toplevel_created :: bool
  display_pointer :: bool
  display_touch :: bool
  preferred_width :: gint
  preferred_height :: gint
  has_dcss :: bool
  video_center_rect :: "GstVideoRectangle \<Rightarrow> GstVideoRectangle \<Rightarrow> bool \<Rightarrow> GstVideoRectangle"
  uint64_scale_int_round :: "gint \<Rightarrow> gint \<Rightarrow> gint \<Rightarrow> gint"
  used_by_compositor :: "GstWlBuffer \<Rightarrow> bool"
  monotonic_time :: gint64

definition emit :: "effect list \<Rightarrow> window \<Rightarrow> window" where
  "emit es w = w\<lparr>effects := effects w @ es\<rparr>"

text \<open>The effects a call added: what follows the effects of the state it started from.\<close>

definition new_effects :: "window \<Rightarrow> window \<Rightarrow> effect list" where
  "new_effects w w' = drop (length (effects w)) (effects w')"

definition RESIZE_MARGIN :: gint where
  "RESIZE_MARGIN = 20"

text \<open>\<^verbatim>\<open>gst_wl_window_init\<close>: GObject hands out zeroed memory, the function sets the rest.\<close>

definition zero_rectangle :: GstVideoRectangle where
  "zero_rectangle = \<lparr>rect_x = 0, rect_y = 0, rect_w = 0, rect_h = 0\<rparr>"

definition gst_wl_window_init :: window where
  "gst_wl_window_init =
     \<lparr>area_subsurface = False, area_viewport = False, video_viewport = False,
      xdg_surface = False, xdg_toplevel = False, surface_sync = False, blend_func = False,
      configured = True, redraw_pending = False,
      render_rectangle = zero_rectangle, video_rectangle = zero_rectangle,
      video_width = 0, video_height = 0, scaled_width = 0,
      buffer_transform = WL_OUTPUT_TRANSFORM_NORMAL,
      is_area_surface_mapped = False,
      next_buffer = None, next_video_info = None, staged_buffer = None,
      clear_window = False, frame_callback_set = False, commit_callback_set = False,
      src_x = 0, src_y = 0, src_width = - 1, src_height = 0, scale = 1,
      pointer_x = 0, pointer_y = 0, fullscreen_width = - 1, fullscreen_height = - 1,
      effects = []\<rparr>"

subsection \<open>Geometry\<close>

text \<open>
  \<^verbatim>\<open>wl_fixed_from_int\<close> of the Wayland headers is \<^verbatim>\<open>i * 256\<close>. The divisions of
  \<^verbatim>\<open>gst_wl_window_resize_video_surface\<close> have a \<^verbatim>\<open>gint\<close> on the left and the \<^verbatim>\<open>guint\<close>
  scale on the right, so C divides unsigned; division of words is unsigned. A scale of
  zero is undefined behaviour in C: theorems about paths that reach the division assume
  \<open>scale w \<noteq> 0\<close>.
\<close>

definition wl_fixed_from_int :: "gint \<Rightarrow> gint" where
  "wl_fixed_from_int i = i * 256"

definition transform_swaps :: "wl_output_transform \<Rightarrow> bool" where
  "transform_swaps t =
     (case t of
        WL_OUTPUT_TRANSFORM_NORMAL \<Rightarrow> False
      | WL_OUTPUT_TRANSFORM_180 \<Rightarrow> False
      | WL_OUTPUT_TRANSFORM_FLIPPED \<Rightarrow> False
      | WL_OUTPUT_TRANSFORM_FLIPPED_180 \<Rightarrow> False
      | WL_OUTPUT_TRANSFORM_90 \<Rightarrow> True
      | WL_OUTPUT_TRANSFORM_270 \<Rightarrow> True
      | WL_OUTPUT_TRANSFORM_FLIPPED_90 \<Rightarrow> True
      | WL_OUTPUT_TRANSFORM_FLIPPED_270 \<Rightarrow> True)"

text \<open>The local rectangles \<^verbatim>\<open>src\<close> and \<^verbatim>\<open>dst\<close> of the resize function.\<close>

definition resize_src :: "window \<Rightarrow> GstVideoRectangle" where
  "resize_src w =
     (if transform_swaps (buffer_transform w)
      then \<lparr>rect_x = 0, rect_y = 0, rect_w = video_height w, rect_h = scaled_width w\<rparr>
      else \<lparr>rect_x = 0, rect_y = 0, rect_w = scaled_width w, rect_h = video_height w\<rparr>)"

definition resize_dst :: "window \<Rightarrow> GstVideoRectangle" where
  "resize_dst w =
     \<lparr>rect_x = 0, rect_y = 0,
      rect_w = rect_w (render_rectangle w), rect_h = rect_h (render_rectangle w)\<rparr>"

definition gst_wl_window_resize_video_surface :: "env \<Rightarrow> bool \<Rightarrow> window \<Rightarrow> window" where
  "gst_wl_window_resize_video_surface e commit w =
     (let fx = wl_fixed_from_int (src_x w div scale w);
          fy = wl_fixed_from_int (src_y w div scale w);
          unset = wl_fixed_from_int ((- 1) div scale w);
          fw = (if transform_swaps (buffer_transform w)
                then wl_fixed_from_int (src_height w div scale w)
                else wl_fixed_from_int (src_width w div scale w));
          fh = (if transform_swaps (buffer_transform w)
                then wl_fixed_from_int (src_width w div scale w)
                else wl_fixed_from_int (src_height w div scale w));
          res = video_center_rect e (resize_src w) (resize_dst w) (video_viewport w);
          w1 = (if video_viewport w
                then emit ([Viewport_set_destination Video_surface (rect_w res) (rect_h res)]
                           @ (if fw \<noteq> unset \<and> fh \<noteq> unset
                              then [Viewport_set_source fx fy fw fh] else [])) w
                else w);
          w2 = emit [Subsurface_set_position Video_surface (rect_x res) (rect_y res),
                     Surface_set_buffer_transform Video_surface (buffer_transform w)] w1;
          w3 = (if commit then emit [Surface_commit Video_surface] w2 else w2)
      in w3\<lparr>video_rectangle := res\<rparr>)"

text \<open>
  \<^verbatim>\<open>gst_wl_window_set_opaque\<close>. \<open>Border_attach single width height\<close> below stands for the
  allocation of the border buffer (a single-pixel buffer when \<open>single\<close>), its attachment
  to the area surface and the release of the local reference.
\<close>

definition gst_wl_window_set_opaque :: "env \<Rightarrow> GstVideoInfo \<Rightarrow> window \<Rightarrow> window" where
  "gst_wl_window_set_opaque e info w =
     (if \<not> info_has_alpha info
      then (if has_dcss e then w else emit [Surface_set_opaque_region Video_surface] w)
      else w)"

definition gst_wl_window_update_borders :: "env \<Rightarrow> window \<Rightarrow> window" where
  "gst_wl_window_update_borders e w =
     (let w1 = (if viewporter e
                then emit [Viewport_set_destination Area_surface
                             (rect_w (render_rectangle w)) (rect_h (render_rectangle w))] w
                else w)
      in if viewporter e \<and> is_area_surface_mapped w then w1
         else
           (let width = (if viewporter e then 1 else rect_w (render_rectangle w));
                height = (if viewporter e then 1 else rect_h (render_rectangle w))
            in emit [Border_attach
                       (width = 1 \<and> height = 1 \<and> single_pixel_buffer_manager e) width height,
                     Surface_damage_buffer Area_surface] w1))"

text \<open>
  \<^verbatim>\<open>gst_wl_window_update_geometry\<close>. \<open>position_area\<close> is what runs before the test of
  \<^verbatim>\<open>configured\<close>: the position of the area subsurface and the borders.
\<close>

definition position_area :: "env \<Rightarrow> window \<Rightarrow> window" where
  "position_area e w =
     (let w1 = (if area_subsurface w
                then emit [Subsurface_set_position Area_surface
                             (rect_x (render_rectangle w)) (rect_y (render_rectangle w))] w
                else w)
      in if is_area_surface_mapped w1 then gst_wl_window_update_borders e w1 else w1)"

definition gst_wl_window_update_geometry :: "env \<Rightarrow> window \<Rightarrow> window" where
  "gst_wl_window_update_geometry e w =
     (let w2 = position_area e w
      in if \<not> configured w2 then w2
         else
           (let w3 = (if scaled_width w2 \<noteq> 0
                      then gst_wl_window_resize_video_surface e True
                             (emit [Mutex_lock Commit_lock, Subsurface_set_sync] w2)
                      else w2);
                w4 = emit [Surface_commit Area_surface] w3
            in if scaled_width w4 \<noteq> 0
               then emit [Subsurface_set_desync, Mutex_unlock Commit_lock] w4
               else w4))"

definition gst_wl_window_set_render_rectangle ::
    "env \<Rightarrow> window \<Rightarrow> gint \<Rightarrow> gint \<Rightarrow> gint \<Rightarrow> gint \<Rightarrow> window" where
  "gst_wl_window_set_render_rectangle e w x y wd ht =
     (if rect_x (render_rectangle w) = x \<and> rect_y (render_rectangle w) = y \<and>
         rect_w (render_rectangle w) = wd \<and> rect_h (render_rectangle w) = ht
      then w
      else gst_wl_window_update_geometry e
             (w\<lparr>render_rectangle := \<lparr>rect_x = x, rect_y = y, rect_w = wd, rect_h = ht\<rparr>\<rparr>))"

definition gst_wl_window_set_source_crop :: "window \<Rightarrow> GstBuffer \<Rightarrow> window" where
  "gst_wl_window_set_source_crop w buffer =
     (case video_crop_meta buffer of
        Some crop \<Rightarrow>
          w\<lparr>src_x := crop_x crop, src_y := crop_y crop,
            src_width := crop_width crop, src_height := crop_height crop\<rparr>
      | None \<Rightarrow> w\<lparr>src_width := - 1\<rparr>)"

subsection \<open>Shell events\<close>

text \<open>
  The loop over the states array of \<^verbatim>\<open>handle_xdg_toplevel_configure\<close> has an empty body
  for every state, so the array does not influence the result.
\<close>

definition handle_xdg_toplevel_configure ::
    "env \<Rightarrow> window \<Rightarrow> gint \<Rightarrow> gint \<Rightarrow> guint list \<Rightarrow> window" where
  "handle_xdg_toplevel_configure e w width height states =
     (if width \<le>s 2 * RESIZE_MARGIN \<or> height \<le>s 2 * RESIZE_MARGIN then w
      else emit [Mutex_unlock Render_lock]
             (gst_wl_window_set_render_rectangle e (emit [Mutex_lock Render_lock] w)
                0 0 width height))"

definition handle_xdg_toplevel_close :: "window \<Rightarrow> window" where
  "handle_xdg_toplevel_close w = emit [Signal_emit CLOSED] w"

definition handle_xdg_surface_configure :: "window \<Rightarrow> guint \<Rightarrow> window" where
  "handle_xdg_surface_configure w serial =
     emit [Cond_signal Configure_cond, Mutex_unlock Configure_mutex]
       ((emit [Xdg_ack_configure serial, Mutex_lock Configure_mutex] w)
          \<lparr>configured := True\<rparr>)"

subsection \<open>The presentation state machine\<close>

text \<open>
  \<^verbatim>\<open>gst_wl_window_commit_buffer\<close>. The pending video info is read first; the geometry it
  carries is applied before the commit lock is taken, and the parent commit that makes
  the new position visible, the return to desync mode and the clearing of the pending
  info come at the end of the same call.
\<close>

definition apply_video_info :: "env \<Rightarrow> GstVideoInfo \<Rightarrow> window \<Rightarrow> window" where
  "apply_video_info e info w =
     gst_wl_window_set_opaque e info
       (gst_wl_window_resize_video_surface e False
          (emit [Subsurface_set_sync]
             (w\<lparr>scaled_width :=
                   uint64_scale_int_round e (info_width info) (info_par_n info) (info_par_d info),
                 video_width := info_width info,
                 video_height := info_height info\<rparr>)))"

definition attach_buffer :: "env \<Rightarrow> GstWlBuffer \<Rightarrow> window \<Rightarrow> window" where
  "attach_buffer e buffer w =
     (let w1 = (if \<not> used_by_compositor e buffer \<and> surface_sync w
                then emit [Get_release buffer] w else w);
          w2 = emit [Surface_frame Video_surface] w1;
          w3 = emit [Surface_attach Video_surface (Some buffer),
                     Surface_set_buffer_scale Video_surface (scale w2),
                     Surface_damage_buffer Video_surface,
                     Surface_commit Video_surface] (w2\<lparr>frame_callback_set := True\<rparr>)
      in if \<not> is_area_surface_mapped w3
         then emit [Signal_emit MAP]
                ((emit [Surface_commit Area_surface] (gst_wl_window_update_borders e w3))
                   \<lparr>is_area_surface_mapped := True\<rparr>)
         else w3)"

definition detach_buffers :: "window \<Rightarrow> window" where
  "detach_buffers w =
     (emit [Surface_attach Video_surface None,
            Surface_set_buffer_scale Video_surface (scale w),
            Surface_commit Video_surface,
            Surface_attach Area_surface None,
            Surface_commit Area_surface] w)
       \<lparr>is_area_surface_mapped := False, clear_window := False\<rparr>"

definition gst_wl_window_commit_buffer :: "env \<Rightarrow> window \<Rightarrow> GstWlBuffer option \<Rightarrow> window" where
  "gst_wl_window_commit_buffer e w buffer =
     (let info = next_video_info w;
          w1 = (case info of Some i \<Rightarrow> apply_video_info e i w | None \<Rightarrow> w);
          w2 = emit [Mutex_lock Commit_lock] w1;
          w3 = (case buffer of
                  Some b \<Rightarrow> attach_buffer e b w2
                | None \<Rightarrow> detach_buffers w2);
          w4 = (case info of
                  Some i \<Rightarrow>
                    (emit [Surface_commit Area_surface, Subsurface_set_desync] w3)
                      \<lparr>next_video_info := None\<rparr>
                | None \<Rightarrow> w3)
      in emit [Mutex_unlock Commit_lock] w4)"

definition unref_buffer :: "GstWlBuffer option \<Rightarrow> window \<Rightarrow> window" where
  "unref_buffer buffer w = (case buffer of Some b \<Rightarrow> emit [Buffer_unref b] w | None \<Rightarrow> w)"

definition frame_redraw_callback :: "env \<Rightarrow> window \<Rightarrow> window" where
  "frame_redraw_callback e w =
     (let w1 = (emit [Callback_destroy Frame_callback] w)\<lparr>frame_callback_set := False\<rparr>;
          nb = staged_buffer w1;
          w2 = emit [Cond_signal Redraw_wait, Mutex_unlock Window_lock]
                 ((emit [Mutex_lock Window_lock] w1)
                    \<lparr>next_buffer := nb, staged_buffer := None, redraw_pending := False\<rparr>);
          w3 = (if nb \<noteq> None \<or> clear_window w2
                then gst_wl_window_commit_buffer e w2 nb else w2)
      in unref_buffer nb w3)"

definition commit_callback :: "env \<Rightarrow> window \<Rightarrow> window" where
  "commit_callback e w =
     (let w1 = (emit [Callback_destroy Commit_callback] w)\<lparr>commit_callback_set := False\<rparr>;
          nb = next_buffer w1;
          w2 = emit [Mutex_lock Window_lock, Mutex_unlock Window_lock] w1;
          w3 = gst_wl_window_commit_buffer e w2 nb
      in unref_buffer nb w3)"

text \<open>
  What the display thread can deliver to the window. A \<^verbatim>\<open>wl_callback\<close> fires once after
  it was requested, and the listeners of the shell objects exist once the objects do, so
  an event whose object is absent changes nothing.
\<close>

datatype dispatch =
    Ev_commit_done
  | Ev_frame_done
  | Ev_toplevel_configure gint gint "guint list"
  | Ev_toplevel_close
  | Ev_surface_configure guint

fun deliver :: "env \<Rightarrow> dispatch \<Rightarrow> window \<Rightarrow> window" where
  "deliver e Ev_commit_done w =
     (if commit_callback_set w then commit_callback e w else w)"
| "deliver e Ev_frame_done w =
     (if frame_callback_set w then frame_redraw_callback e w else w)"
| "deliver e (Ev_toplevel_configure width height states) w =
     (if xdg_toplevel w then handle_xdg_toplevel_configure e w width height states else w)"
| "deliver e Ev_toplevel_close w =
     (if xdg_toplevel w then handle_xdg_toplevel_close w else w)"
| "deliver e (Ev_surface_configure serial) w =
     (if xdg_surface w then handle_xdg_surface_configure w serial else w)"

text \<open>
  \<^verbatim>\<open>gst_wl_window_render\<close>, in the three parts its wait separates. \<open>render_enter\<close> is what
  runs before the wait: the reference, the lock and the copy of the video info.
  \<open>redraw_wait\<close> is the loop \<^verbatim>\<open>while (priv->redraw_pending) g_cond_wait (...)\<close>: the
  calling thread sleeps with the window lock released, and it is the display thread that
  ends the wait, with the frame callback. The list holds the events the display thread
  delivers from then on; when it is used up and \<open>redraw_pending\<close> is still set nothing
  will clear it any more, and the result \<open>None\<close> says that the call does not return.
  \<open>render_leave\<close> is what runs after the wait.
\<close>

definition render_enter ::
    "window \<Rightarrow> GstWlBuffer option \<Rightarrow> GstVideoInfo option \<Rightarrow> window" where
  "render_enter w buffer info =
     (let w1 = (case buffer of Some b \<Rightarrow> emit [Buffer_ref b] w | None \<Rightarrow> w);
          w2 = emit [Mutex_lock Window_lock] w1
      in case info of Some i \<Rightarrow> w2\<lparr>next_video_info := Some i\<rparr> | None \<Rightarrow> w2)"

fun redraw_wait :: "env \<Rightarrow> dispatch list \<Rightarrow> window \<Rightarrow> window option" where
  "redraw_wait e [] w = (if redraw_pending w then None else Some w)"
| "redraw_wait e (d # ds) w =
     (if redraw_pending w
      then redraw_wait e ds (deliver e d (emit [Cond_wait Redraw_wait Window_lock] w))
      else Some w)"

definition render_leave :: "window \<Rightarrow> GstWlBuffer option \<Rightarrow> window \<times> bool" where
  "render_leave w buffer =
     (let dropped = (next_buffer w \<noteq> None \<and> staged_buffer w \<noteq> None);
          w1 = (if dropped then unref_buffer (staged_buffer w) w else w);
          w2 = (if next_buffer w1 = None
                then emit [Display_sync, Display_flush]
                       (w1\<lparr>next_buffer := buffer, redraw_pending := True,
                           commit_callback_set := True\<rparr>)
                else w1\<lparr>staged_buffer := buffer\<rparr>);
          w3 = (if buffer = None then w2\<lparr>clear_window := True\<rparr> else w2)
      in (emit [Mutex_unlock Window_lock] w3, \<not> dropped))"

definition gst_wl_window_render ::
    "env \<Rightarrow> dispatch list \<Rightarrow> window \<Rightarrow> GstWlBuffer option \<Rightarrow> GstVideoInfo option
       \<Rightarrow> (window \<times> bool) option" where
  "gst_wl_window_render e ds w buffer info =
     (case redraw_wait e ds (render_enter w buffer info) of
        None \<Rightarrow> None
      | Some w1 \<Rightarrow> Some (render_leave w1 buffer))"

text \<open>
  \<^verbatim>\<open>gst_wl_window_finalize\<close>. \<^verbatim>\<open>gst_wl_display_callback_destroy\<close> destroys a pending
  callback and clears the pointer it is given.
\<close>

definition destroy_if :: "bool \<Rightarrow> proxy \<Rightarrow> effect list" where
  "destroy_if present p = (if present then [Proxy_destroy p] else [])"

definition gst_wl_window_finalize :: "window \<Rightarrow> window" where
  "gst_wl_window_finalize w =
     (let w1 = (emit [Callback_destroy Frame_callback, Callback_destroy Commit_callback] w)
                 \<lparr>frame_callback_set := False, commit_callback_set := False\<rparr>;
          w2 = emit [Cond_signal Redraw_wait, Mutex_unlock Window_lock]
                 ((emit [Mutex_lock Window_lock] w1)\<lparr>redraw_pending := False\<rparr>);
          w3 = emit [Cond_clear Configure_cond, Cond_clear Redraw_wait,
                     Mutex_clear Configure_mutex, Mutex_clear Window_lock,
                     Mutex_clear Commit_lock] w2;
          w4 = unref_buffer (staged_buffer w3) w3
      in emit (destroy_if (xdg_toplevel w4) Xdg_toplevel
               @ destroy_if (xdg_surface w4) Xdg_surface
               @ destroy_if (video_viewport w4) Video_viewport
               @ destroy_if (surface_sync w4) Surface_sync
               @ [Proxy_destroy Video_surface_wrapper]
               @ destroy_if (blend_func w4) Blend_func
               @ [Proxy_destroy Video_subsurface, Proxy_destroy Video_surface_proxy]
               @ destroy_if (area_subsurface w4) Area_subsurface
               @ destroy_if (area_viewport w4) Area_viewport
               @ [Proxy_destroy Area_surface_wrapper, Proxy_destroy Area_surface_proxy,
                  Display_unref]) w4)"

subsection \<open>Creating a toplevel window\<close>

text \<open>
  The constructor waits for the first configure event with \<^verbatim>\<open>g_cond_wait_until\<close> and an
  absolute deadline. Each call of it ends in one of two ways, and either way the display
  thread may have handled events in the meantime: \<open>signalled\<close> is the return value of the
  call (\<^verbatim>\<open>FALSE\<close> when the deadline has passed), \<open>delivered\<close> the events handled while it
  slept. The calls are given as a list; past its end nothing more happens, and the next
  call returns at the deadline with \<^verbatim>\<open>FALSE\<close>.
\<close>

record wake =
  delivered :: "dispatch list"
  signalled :: bool

definition G_TIME_SPAN_MILLISECOND :: gint64 where
  "G_TIME_SPAN_MILLISECOND = 1000"

definition configure_deadline :: "env \<Rightarrow> gint64" where
  "configure_deadline e = monotonic_time e + 100 * G_TIME_SPAN_MILLISECOND"

definition deliver_all :: "env \<Rightarrow> dispatch list \<Rightarrow> window \<Rightarrow> window" where
  "deliver_all e ds w = foldl (\<lambda>s d. deliver e d s) w ds"

definition wait_until :: "env \<Rightarrow> window \<Rightarrow> window" where
  "wait_until e w =
     emit [Cond_wait_until Configure_cond Configure_mutex (configure_deadline e)] w"

fun configure_wait :: "env \<Rightarrow> wake list \<Rightarrow> window \<Rightarrow> window" where
  "configure_wait e [] w =
     (if configured w then w else emit [Log_warning] (wait_until e w))"
| "configure_wait e (k # ks) w =
     (if configured w then w
      else if signalled k
      then configure_wait e ks (deliver_all e (delivered k) (wait_until e w))
      else emit [Log_warning] (deliver_all e (delivered k) (wait_until e w)))"

definition gst_wl_window_ensure_fullscreen :: "window \<Rightarrow> bool \<Rightarrow> window" where
  "gst_wl_window_ensure_fullscreen w fullscreen = emit [Xdg_set_fullscreen fullscreen] w"

text \<open>
  The last step of the constructor: unless the window is a fullscreen xdg toplevel, the
  render rectangle is set from the preferred size of the display, else from the video
  size, else from the fullscreen size.
\<close>

definition initial_render_rectangle ::
    "env \<Rightarrow> GstVideoInfo \<Rightarrow> bool \<Rightarrow> window \<Rightarrow> window" where
  "initial_render_rectangle e info fullscreen w =
     (if \<not> (xdg_wm_base e \<and> fullscreen)
      then
        (if 0 <s preferred_width e \<and> 0 <s preferred_height e
         then gst_wl_window_set_render_rectangle e w 0 0
                (preferred_width e) (preferred_height e)
         else if fullscreen_width w \<le>s 0
         then gst_wl_window_set_render_rectangle e w 0 0
                (uint64_scale_int_round e (info_width info) (info_par_n info) (info_par_d info))
                (info_height info)
         else gst_wl_window_set_render_rectangle e w 0 0
                (fullscreen_width w) (fullscreen_height w))
      else w)"

text \<open>
  \<^verbatim>\<open>gst_wl_window_new_toplevel\<close>, from the window that \<^verbatim>\<open>gst_wl_window_new_internal\<close>
  returned (the argument \<open>self\<close>). The result \<open>None\<close> is the \<^verbatim>\<open>NULL\<close> of the error path.
\<close>

definition gst_wl_window_new_toplevel ::
    "env \<Rightarrow> wake list \<Rightarrow> window \<Rightarrow> GstVideoInfo \<Rightarrow> bool \<Rightarrow> window option" where
  "gst_wl_window_new_toplevel e ws self info fullscreen =
     (if xdg_wm_base e then
        (if \<not> xdg_surface_created e then None
         else if \<not> xdg_toplevel_created e then None
         else
           (let w1 = emit [Add_listener Xdg_surface] (self\<lparr>xdg_surface := True\<rparr>);
                w2 = emit [Add_listener Xdg_toplevel, Xdg_set_app_id]
                       (w1\<lparr>xdg_toplevel := True\<rparr>);
                w3 = (if display_pointer e then emit [Pointer_add_listener] w2 else w2);
                w4 = (if display_touch e then emit [Touch_add_listener] w3 else w3);
                w5 = gst_wl_window_ensure_fullscreen w4 fullscreen;
                w6 = emit [Surface_commit Area_surface, Display_flush,
                           Mutex_lock Configure_mutex] (w5\<lparr>configured := False\<rparr>);
                w7 = configure_wait e ws w6;
                w8 = emit [Mutex_unlock Configure_mutex] w7
            in Some (initial_render_rectangle e info fullscreen w8)))
      else if fullscreen_shell e
      then Some (initial_render_rectangle e info fullscreen
                   (emit [Fullscreen_present_surface] self))
      else None)"

subsection \<open>Notions used in the statements\<close>

text \<open>A protocol commit is a \<^verbatim>\<open>wl_surface_commit\<close> on either surface.\<close>

definition is_commit :: "effect \<Rightarrow> bool" where
  "is_commit ef = (case ef of Surface_commit s \<Rightarrow> True | _ \<Rightarrow> False)"

text \<open>A sequence of calls of \<^verbatim>\<open>gst_wl_window_set_render_rectangle\<close>, one per rectangle.\<close>

definition set_render_rectangles :: "env \<Rightarrow> window \<Rightarrow> GstVideoRectangle list \<Rightarrow> window" where
  "set_render_rectangles e w rs =
     foldl (\<lambda>s r. gst_wl_window_set_render_rectangle e s
                     (rect_x r) (rect_y r) (rect_w r) (rect_h r)) w rs"

definition is_surface_configure :: "dispatch \<Rightarrow> bool" where
  "is_surface_configure d = (case d of Ev_surface_configure serial \<Rightarrow> True | _ \<Rightarrow> False)"

text \<open>
  A concrete environment for the examples: a display with viewporter and xdg shell, a
  centring function that fills the destination, square pixels, no buffer held by the
  compositor.
\<close>

definition plain_env :: env where
  "plain_env =
     \<lparr>viewporter = True, single_pixel_buffer_manager = True, xdg_wm_base = True,
      fullscreen_shell = False, xdg_surface_created = True, xdg_toplevel_created = True,
      display_pointer = False, display_touch = False,
      preferred_width = 0, preferred_height = 0, has_dcss = False,
      video_center_rect = (\<lambda>src dst scaling. dst),
      uint64_scale_int_round = (\<lambda>val num denom. val),
      used_by_compositor = (\<lambda>b. False),
      monotonic_time = 0\<rparr>"

text \<open>
  The requests that only describe geometry: viewport, position, transform, opaque region
  and the border buffer of the area surface. None of them is a commit, a lock operation or
  a change of a buffer reference.
\<close>

definition geometry_request :: "effect \<Rightarrow> bool" where
  "geometry_request ef =
     (case ef of
        Viewport_set_destination s a b \<Rightarrow> True
      | Viewport_set_source a b c d \<Rightarrow> True
      | Subsurface_set_position s a b \<Rightarrow> True
      | Surface_set_buffer_transform s t \<Rightarrow> True
      | Surface_set_opaque_region s \<Rightarrow> True
      | Border_attach s a b \<Rightarrow> True
      | Surface_damage_buffer s \<Rightarrow> s = Area_surface
      | _ \<Rightarrow> False)"

text \<open>
  The window after a pending video info \<open>i\<close> has been applied: the sizes of the video and
  the rectangle the video is centred in.
\<close>

definition info_fields :: "env \<Rightarrow> window \<Rightarrow> GstVideoInfo \<Rightarrow> window" where
  "info_fields e w i =
     (w\<lparr>scaled_width :=
          uint64_scale_int_round e (info_width i) (info_par_n i) (info_par_d i),
        video_width := info_width i, video_height := info_height i\<rparr>)
       \<lparr>video_rectangle :=
          video_center_rect e
            (resize_src (w\<lparr>scaled_width :=
                uint64_scale_int_round e (info_width i) (info_par_n i) (info_par_d i),
              video_width := info_width i, video_height := info_height i\<rparr>))
            (resize_dst w) (video_viewport w)\<rparr>"

text \<open>
  The requests a pending video info makes the commit send before it takes the commit lock,
  given the viewport requests \<open>vp\<close> of the resize.
\<close>

definition info_requests ::
    "env \<Rightarrow> window \<Rightarrow> GstVideoInfo \<Rightarrow> effect list \<Rightarrow> effect list" where
  "info_requests e w i vp =
     Subsurface_set_sync # vp
     @ [Subsurface_set_position Video_surface
          (rect_x (video_rectangle (info_fields e w i)))
          (rect_y (video_rectangle (info_fields e w i))),
        Surface_set_buffer_transform Video_surface (buffer_transform w)]
     @ (if \<not> info_has_alpha i \<and> \<not> has_dcss e
        then [Surface_set_opaque_region Video_surface] else [])"

text \<open>
  The requests of the middle part of a commit: for a buffer its attachment, for none the
  detachment of both surfaces. \<open>brd\<close> are the border requests of a first mapping.
\<close>

definition buffer_requests ::
    "env \<Rightarrow> window \<Rightarrow> GstWlBuffer option \<Rightarrow> effect list \<Rightarrow> effect list" where
  "buffer_requests e w b brd =
     (case b of
        None \<Rightarrow>
          [Surface_attach Video_surface None,
           Surface_set_buffer_scale Video_surface (scale w),
           Surface_commit Video_surface,
           Surface_attach Area_surface None,
           Surface_commit Area_surface]
      | Some x \<Rightarrow>
          (if \<not> used_by_compositor e x \<and> surface_sync w then [Get_release x] else [])
          @ [Surface_frame Video_surface, Surface_attach Video_surface (Some x),
             Surface_set_buffer_scale Video_surface (scale w),
             Surface_damage_buffer Video_surface, Surface_commit Video_surface]
          @ (if \<not> is_area_surface_mapped w
             then brd @ [Surface_commit Area_surface, Signal_emit MAP] else []))"

text \<open>All effects of one call of \<^verbatim>\<open>gst_wl_window_commit_buffer\<close>, in order.\<close>

definition commit_requests ::
    "env \<Rightarrow> window \<Rightarrow> GstWlBuffer option \<Rightarrow> effect list \<Rightarrow> effect list \<Rightarrow> effect list"
    where
  "commit_requests e w b vp brd =
     (case next_video_info w of None \<Rightarrow> [] | Some i \<Rightarrow> info_requests e w i vp)
     @ [Mutex_lock Commit_lock]
     @ buffer_requests e w b brd
     @ (case next_video_info w of
          None \<Rightarrow> []
        | Some i \<Rightarrow> [Surface_commit Area_surface, Subsurface_set_desync])
     @ [Mutex_unlock Commit_lock]"

text \<open>
  The window after \<^verbatim>\<open>gst_wl_window_render\<close> was called once, with buffer 1 and no video
  info, on a fresh window: buffer 1 is in the in-flight slot and a redraw is pending.
\<close>

definition in_flight_window :: window where
  "in_flight_window = fst (render_leave (render_enter gst_wl_window_init (Some 1) None) (Some 1))"

text \<open>
  The window at the moment \<^verbatim>\<open>frame_redraw_callback\<close> has released the window lock: the
  staged buffer moved to the in-flight slot, no redraw pending, the waiting thread
  signalled.
\<close>

definition frame_unlocked :: "window \<Rightarrow> window" where
  "frame_unlocked w =
     emit [Callback_destroy Frame_callback, Mutex_lock Window_lock,
           Cond_signal Redraw_wait, Mutex_unlock Window_lock]
       (w\<lparr>frame_callback_set := False, next_buffer := staged_buffer w,
          staged_buffer := None, redraw_pending := False\<rparr>)"

text \<open>The one timed wait of the constructor: on the configure condition, with its deadline.\<close>

definition timed_wait :: "env \<Rightarrow> effect" where
  "timed_wait e = Cond_wait_until Configure_cond Configure_mutex (configure_deadline e)"

text \<open>Every effect but a timed wait and a warning.\<close>

definition no_wait :: "effect \<Rightarrow> bool" where
  "no_wait ef = (case ef of Cond_wait_until cv m t \<Rightarrow> False | Log_warning \<Rightarrow> False | _ \<Rightarrow> True)"

section \<open>Properties\<close>

subsection \<open>Effects and fields of the geometry functions\<close>

lemma effects_emit [simp]: "effects (emit es w) = effects w @ es"
  by (simp add: emit_def)

lemma new_effects_emit [simp]: "new_effects w (emit es w) = es"
  by (simp add: new_effects_def)

lemma new_effects_eq: "effects w' = effects w @ es \<Longrightarrow> new_effects w w' = es"
  by (simp add: new_effects_def)

lemma new_effects_self [simp]: "new_effects w w = []"
  by (simp add: new_effects_def)

lemma emit_fields [simp]:
  "render_rectangle (emit es w) = render_rectangle w"
  "configured (emit es w) = configured w"
  "scaled_width (emit es w) = scaled_width w"
  "is_area_surface_mapped (emit es w) = is_area_surface_mapped w"
  "area_subsurface (emit es w) = area_subsurface w"
  "scale (emit es w) = scale w"
  "next_buffer (emit es w) = next_buffer w"
  "staged_buffer (emit es w) = staged_buffer w"
  "next_video_info (emit es w) = next_video_info w"
  "redraw_pending (emit es w) = redraw_pending w"
  "clear_window (emit es w) = clear_window w"
  "surface_sync (emit es w) = surface_sync w"
  "xdg_surface (emit es w) = xdg_surface w"
  "xdg_toplevel (emit es w) = xdg_toplevel w"
  by (simp_all add: emit_def)

lemma rectangle_eq_iff:
  "(r = \<lparr>rect_x = x, rect_y = y, rect_w = wd, rect_h = ht\<rparr>)
     = (rect_x r = x \<and> rect_y r = y \<and> rect_w r = wd \<and> rect_h r = ht)"
  by (cases r) auto

lemma resize_fields [simp]:
  "render_rectangle (gst_wl_window_resize_video_surface e c w) = render_rectangle w"
  "configured (gst_wl_window_resize_video_surface e c w) = configured w"
  "scaled_width (gst_wl_window_resize_video_surface e c w) = scaled_width w"
  by (simp_all add: gst_wl_window_resize_video_surface_def Let_def)

lemma borders_fields [simp]:
  "render_rectangle (gst_wl_window_update_borders e w) = render_rectangle w"
  "configured (gst_wl_window_update_borders e w) = configured w"
  "scaled_width (gst_wl_window_update_borders e w) = scaled_width w"
  by (simp_all add: gst_wl_window_update_borders_def Let_def)

lemma position_area_fields [simp]:
  "render_rectangle (position_area e w) = render_rectangle w"
  "configured (position_area e w) = configured w"
  "scaled_width (position_area e w) = scaled_width w"
  by (simp_all add: position_area_def Let_def)

lemma geometry_fields [simp]:
  "render_rectangle (gst_wl_window_update_geometry e w) = render_rectangle w"
  "configured (gst_wl_window_update_geometry e w) = configured w"
  by (simp_all add: gst_wl_window_update_geometry_def Let_def)

lemma resize_effects:
  "\<exists>es. effects (gst_wl_window_resize_video_surface e c w) = effects w @ es
     \<and> Surface_commit Area_surface \<notin> set es"
  by (simp add: gst_wl_window_resize_video_surface_def Let_def)

lemma borders_effects:
  "\<exists>es. effects (gst_wl_window_update_borders e w) = effects w @ es
     \<and> (\<forall>x\<in>set es. \<not> is_commit x)"
  by (simp add: gst_wl_window_update_borders_def Let_def is_commit_def)

lemma position_area_effects:
  "\<exists>es. effects (position_area e w) = effects w @ es \<and> (\<forall>x\<in>set es. \<not> is_commit x)"
proof -
  let ?w1 = "if area_subsurface w
             then emit [Subsurface_set_position Area_surface
                    (rect_x (render_rectangle w)) (rect_y (render_rectangle w))] w
             else w"
  obtain es where es: "effects (gst_wl_window_update_borders e ?w1) = effects ?w1 @ es"
      "\<forall>x\<in>set es. \<not> is_commit x"
    using borders_effects by blast
  show ?thesis
  proof (cases "is_area_surface_mapped w")
    case True
    with es show ?thesis by (auto simp add: position_area_def is_commit_def)
  next
    case False
    then show ?thesis by (auto simp add: position_area_def is_commit_def)
  qed
qed


lemma not_commit_count:
  "\<forall>x\<in>set es. \<not> is_commit x \<Longrightarrow> count_list es (Surface_commit s) = 0"
  by (auto simp add: count_list_0_iff is_commit_def)

lemma geometry_configured:
  assumes "configured w"
  shows "\<exists>es. effects (gst_wl_window_update_geometry e w) = effects w @ es
     \<and> count_list es (Surface_commit Area_surface) = 1"
proof -
  let ?w2 = "position_area e w"
  obtain es2 where es2: "effects ?w2 = effects w @ es2" "\<forall>x\<in>set es2. \<not> is_commit x"
    using position_area_effects by blast
  have c2: "count_list es2 (Surface_commit Area_surface) = 0"
    using es2(2) by (rule not_commit_count)
  let ?w3 = "gst_wl_window_resize_video_surface e True
               (emit [Mutex_lock Commit_lock, Subsurface_set_sync] ?w2)"
  obtain es3 where es3:
      "effects ?w3 = effects w @ es2 @ [Mutex_lock Commit_lock, Subsurface_set_sync] @ es3"
      "Surface_commit Area_surface \<notin> set es3"
    using resize_effects [of e True "emit [Mutex_lock Commit_lock, Subsurface_set_sync] ?w2"]
      es2(1) by auto
  have c3: "count_list es3 (Surface_commit Area_surface) = 0"
    using es3(2) by (simp add: count_list_0_iff)
  have unfold: "gst_wl_window_update_geometry e w =
      (if scaled_width w \<noteq> 0
       then emit [Subsurface_set_desync, Mutex_unlock Commit_lock]
              (emit [Surface_commit Area_surface] ?w3)
       else emit [Surface_commit Area_surface] ?w2)"
    using assms by (simp add: gst_wl_window_update_geometry_def Let_def)
  show ?thesis
  proof (cases "scaled_width w = 0")
    case True
    then have "effects (gst_wl_window_update_geometry e w)
        = effects w @ (es2 @ [Surface_commit Area_surface])"
      using es2(1) by (simp add: unfold)
    moreover have
      "count_list (es2 @ [Surface_commit Area_surface]) (Surface_commit Area_surface) = 1"
      using c2 by simp
    ultimately show ?thesis by blast
  next
    case False
    let ?es = "es2 @ [Mutex_lock Commit_lock, Subsurface_set_sync] @ es3
                 @ [Surface_commit Area_surface] @ [Subsurface_set_desync, Mutex_unlock Commit_lock]"
    from False have "effects (gst_wl_window_update_geometry e w) = effects w @ ?es"
      using es3(1) by (simp add: unfold)
    moreover have "count_list ?es (Surface_commit Area_surface) = 1"
      using c2 c3 by simp
    ultimately show ?thesis by blast
  qed
qed

lemma set_rr_rect:
  "render_rectangle (gst_wl_window_set_render_rectangle e w x y wd ht)
     = \<lparr>rect_x = x, rect_y = y, rect_w = wd, rect_h = ht\<rparr>"
  by (simp add: gst_wl_window_set_render_rectangle_def rectangle_eq_iff)

lemma set_rr_configured [simp]:
  "configured (gst_wl_window_set_render_rectangle e w x y wd ht) = configured w"
  by (simp add: gst_wl_window_set_render_rectangle_def)

lemma set_rr_same:
  "render_rectangle w = \<lparr>rect_x = x, rect_y = y, rect_w = wd, rect_h = ht\<rparr>
     \<Longrightarrow> gst_wl_window_set_render_rectangle e w x y wd ht = w"
  by (simp add: gst_wl_window_set_render_rectangle_def)

lemma set_rr_twice:
  "gst_wl_window_set_render_rectangle e
       (gst_wl_window_set_render_rectangle e w x y wd ht) x y wd ht
     = gst_wl_window_set_render_rectangle e w x y wd ht"
  by (rule set_rr_same) (rule set_rr_rect)


lemma set_rr_configured_changed:
  assumes "configured w"
    and "render_rectangle w \<noteq> \<lparr>rect_x = x, rect_y = y, rect_w = wd, rect_h = ht\<rparr>"
  shows "\<exists>es. effects (gst_wl_window_set_render_rectangle e w x y wd ht) = effects w @ es
     \<and> count_list es (Surface_commit Area_surface) = 1"
proof -
  let ?w = "w\<lparr>render_rectangle := \<lparr>rect_x = x, rect_y = y, rect_w = wd, rect_h = ht\<rparr>\<rparr>"
  have "configured ?w" using assms(1) by simp
  from geometry_configured [OF this, of e] assms(2) show ?thesis
    by (simp add: gst_wl_window_set_render_rectangle_def rectangle_eq_iff)
qed

lemma set_render_rectangles_snoc:
  "set_render_rectangles e w (rs @ [r]) =
     gst_wl_window_set_render_rectangle e (set_render_rectangles e w rs)
       (rect_x r) (rect_y r) (rect_w r) (rect_h r)"
  by (simp add: set_render_rectangles_def)

lemma set_render_rectangles_configured [simp]:
  "configured (set_render_rectangles e w rs) = configured w"
  by (induction rs rule: rev_induct) (simp_all add: set_render_rectangles_snoc, simp add: set_render_rectangles_def)



lemma surface_configure_fields [simp]:
  "configured (handle_xdg_surface_configure w serial)"
  "render_rectangle (handle_xdg_surface_configure w serial) = render_rectangle w"
  "scaled_width (handle_xdg_surface_configure w serial) = scaled_width w"
  by (simp_all add: handle_xdg_surface_configure_def)


subsection \<open>The render rectangle\<close>



text \<open>
  C6. A call of \<^verbatim>\<open>gst_wl_window_set_render_rectangle\<close> with the rectangle the window
  already holds returns the window as it was: no field changes and no request is sent.
  Hence a second identical call adds nothing to the first; and when the first call changed
  the rectangle of a configured window, the two calls together commit the area surface
  exactly once.
\<close>

theorem set_render_rectangle_idempotent:
  "(render_rectangle w = \<lparr>rect_x = x, rect_y = y, rect_w = wd, rect_h = ht\<rparr> \<longrightarrow>
      gst_wl_window_set_render_rectangle e w x y wd ht = w)
   \<and> (scale w \<noteq> 0 \<longrightarrow>
        gst_wl_window_set_render_rectangle e
          (gst_wl_window_set_render_rectangle e w x y wd ht) x y wd ht
          = gst_wl_window_set_render_rectangle e w x y wd ht)
   \<and> (scale w \<noteq> 0 \<and> configured w
        \<and> render_rectangle w \<noteq> \<lparr>rect_x = x, rect_y = y, rect_w = wd, rect_h = ht\<rparr> \<longrightarrow>
        count_list
          (new_effects w
             (gst_wl_window_set_render_rectangle e
                (gst_wl_window_set_render_rectangle e w x y wd ht) x y wd ht))
          (Surface_commit Area_surface) = 1)"
proof -
  have "count_list (new_effects w (gst_wl_window_set_render_rectangle e w x y wd ht))
      (Surface_commit Area_surface) = 1"
    if "configured w"
      and "render_rectangle w \<noteq> \<lparr>rect_x = x, rect_y = y, rect_w = wd, rect_h = ht\<rparr>"
    using set_rr_configured_changed [OF that, of e] by (auto simp add: new_effects_eq)
  then show ?thesis
    by (simp add: set_rr_twice set_rr_same)
qed

theorem set_render_rectangle_idempotent_witness:
  "scale gst_wl_window_init \<noteq> 0 \<and> configured gst_wl_window_init
   \<and> render_rectangle gst_wl_window_init
       \<noteq> \<lparr>rect_x = 10, rect_y = 10, rect_w = 100, rect_h = 100\<rparr>
   \<and> count_list
       (new_effects gst_wl_window_init
          (gst_wl_window_set_render_rectangle plain_env
             (gst_wl_window_set_render_rectangle plain_env gst_wl_window_init 10 10 100 100)
             10 10 100 100))
       (Surface_commit Area_surface) = 1
   \<and> gst_wl_window_set_render_rectangle plain_env
       (gst_wl_window_set_render_rectangle plain_env gst_wl_window_init 10 10 100 100)
       10 10 100 100
     = gst_wl_window_set_render_rectangle plain_env gst_wl_window_init 10 10 100 100"
proof -
  have h: "scale gst_wl_window_init \<noteq> 0" "configured gst_wl_window_init"
    "render_rectangle gst_wl_window_init
       \<noteq> \<lparr>rect_x = 10, rect_y = 10, rect_w = 100, rect_h = 100\<rparr>"
    by (simp_all add: gst_wl_window_init_def zero_rectangle_def)
  note t = set_render_rectangle_idempotent [of gst_wl_window_init 10 10 100 100 plain_env]
  from t h show ?thesis by blast
qed

text \<open>
  C7. With crop metadata on the buffer, \<^verbatim>\<open>gst_wl_window_set_source_crop\<close> stores its four
  values; without, it sets the width to the sentinel \<open>-1\<close> and leaves everything else as it
  was, also directly after a buffer that carried a crop.
\<close>

theorem set_source_crop_stores_or_resets:
  "src_x (gst_wl_window_set_source_crop w \<lparr>video_crop_meta = Some c\<rparr>) = crop_x c
   \<and> src_y (gst_wl_window_set_source_crop w \<lparr>video_crop_meta = Some c\<rparr>) = crop_y c
   \<and> src_width (gst_wl_window_set_source_crop w \<lparr>video_crop_meta = Some c\<rparr>) = crop_width c
   \<and> src_height (gst_wl_window_set_source_crop w \<lparr>video_crop_meta = Some c\<rparr>) = crop_height c
   \<and> gst_wl_window_set_source_crop w \<lparr>video_crop_meta = None\<rparr> = w\<lparr>src_width := - 1\<rparr>
   \<and> src_width (gst_wl_window_set_source_crop
                  (gst_wl_window_set_source_crop w \<lparr>video_crop_meta = Some c\<rparr>)
                  \<lparr>video_crop_meta = None\<rparr>) = - 1"
  by (simp add: gst_wl_window_set_source_crop_def)

subsection \<open>Configure events of the toplevel\<close>

text \<open>
  C10. Twice the resize margin is 40. A configure event of the toplevel whose width or
  height is at most 40 (as signed numbers) leaves the window exactly as it was, effects
  included; an event with both above 40 sets the render rectangle to
  \<open>(0, 0, width, height)\<close>.
\<close>

theorem toplevel_configure_threshold:
  "2 * RESIZE_MARGIN = 40
   \<and> (width \<le>s 40 \<or> height \<le>s 40 \<longrightarrow>
        handle_xdg_toplevel_configure e w width height states = w)
   \<and> (scale w \<noteq> 0 \<and> 40 <s width \<and> 40 <s height \<longrightarrow>
        render_rectangle (handle_xdg_toplevel_configure e w width height states)
          = \<lparr>rect_x = 0, rect_y = 0, rect_w = width, rect_h = height\<rparr>)"
  by (auto simp add: handle_xdg_toplevel_configure_def RESIZE_MARGIN_def set_rr_rect)

theorem toplevel_configure_threshold_witness:
  "((40::gint) \<le>s 40 \<or> (600::gint) \<le>s 40)
   \<and> handle_xdg_toplevel_configure plain_env gst_wl_window_init 40 600 [] = gst_wl_window_init
   \<and> scale gst_wl_window_init \<noteq> 0 \<and> (40::gint) <s 800 \<and> (40::gint) <s 600
   \<and> render_rectangle (handle_xdg_toplevel_configure plain_env gst_wl_window_init 800 600 [])
       = \<lparr>rect_x = 0, rect_y = 0, rect_w = 800, rect_h = 600\<rparr>"
proof -
  have h: "(40::gint) \<le>s 40 \<or> (600::gint) \<le>s 40" "scale gst_wl_window_init \<noteq> 0"
    "(40::gint) <s 800" "(40::gint) <s 600"
    by (simp_all add: gst_wl_window_init_def word_sle_eq word_sless_alt)
  show ?thesis
    using h toplevel_configure_threshold [of 40 600 plain_env gst_wl_window_init "[]"]
      toplevel_configure_threshold [of 800 600 plain_env gst_wl_window_init "[]"]
    by simp
qed

subsection \<open>The commit sequence\<close>

lemma geometry_request_simps [simp]:
  "geometry_request (Viewport_set_destination s a b)"
  "geometry_request (Viewport_set_source a b a' b')"
  "geometry_request (Subsurface_set_position s a b)"
  "geometry_request (Surface_set_buffer_transform s t)"
  "geometry_request (Surface_set_opaque_region s)"
  "geometry_request (Border_attach single a b)"
  "geometry_request (Surface_damage_buffer s) = (s = Area_surface)"
  "\<not> geometry_request (Mutex_lock m)"
  "\<not> geometry_request (Mutex_unlock m)"
  "\<not> geometry_request (Cond_signal cv)"
  "\<not> geometry_request (Cond_wait cv m)"
  "\<not> geometry_request (Buffer_ref x)"
  "\<not> geometry_request (Buffer_unref x)"
  "\<not> geometry_request (Surface_commit s)"
  "\<not> geometry_request (Surface_attach s xo)"
  "\<not> geometry_request (Surface_frame s)"
  "\<not> geometry_request (Surface_set_buffer_scale s a)"
  "\<not> geometry_request Subsurface_set_sync"
  "\<not> geometry_request Subsurface_set_desync"
  "\<not> geometry_request (Get_release x)"
  "\<not> geometry_request Display_sync"
  "\<not> geometry_request Display_flush"
  "\<not> geometry_request (Callback_destroy cb)"
  "\<not> geometry_request (Signal_emit g)"
  by (simp_all add: geometry_request_def)

lemma geometry_request_not_in:
  "\<forall>x\<in>set es. geometry_request x \<Longrightarrow> \<not> geometry_request y \<Longrightarrow> y \<notin> set es"
  by auto

lemma geometry_request_count:
  "\<forall>x\<in>set es. geometry_request x \<Longrightarrow> \<not> geometry_request y \<Longrightarrow> count_list es y = 0"
  by (auto simp add: count_list_0_iff)

lemma emit_emit [simp]: "emit es (emit es' w) = emit (es' @ es) w"
  by (simp add: emit_def)

lemma emit_nil [simp]: "emit [] w = w"
  by (simp add: emit_def)

lemma emit_eq_iff [simp]: "(emit a w = emit b w) = (a = b)"
proof
  assume "emit a w = emit b w"
  then have "effects (emit a w) = effects (emit b w)" by simp
  then show "a = b" by simp
qed simp

lemma emit_eq_self [simp]: "(w = emit b w) = (b = [])" "(emit b w = w) = (b = [])"
  using emit_eq_iff [of "[]" w b] emit_eq_iff [of b w "[]"] by (simp_all only: emit_nil) auto

lemma emit_more_fields [simp]:
  "frame_callback_set (emit es w) = frame_callback_set w"
  "video_width (emit es w) = video_width w"
  "commit_callback_set (emit es w) = commit_callback_set w"
  "video_rectangle (emit es w) = video_rectangle w"
  "video_viewport (emit es w) = video_viewport w"
  "buffer_transform (emit es w) = buffer_transform w"
  "video_height (emit es w) = video_height w"
  "src_x (emit es w) = src_x w"
  "src_y (emit es w) = src_y w"
  "src_width (emit es w) = src_width w"
  "src_height (emit es w) = src_height w"
  by (simp_all add: emit_def)

lemma emit_update [simp]:
  "(emit es w)\<lparr>video_rectangle := r\<rparr> = emit es (w\<lparr>video_rectangle := r\<rparr>)"
  "(emit es w)\<lparr>is_area_surface_mapped := m\<rparr> = emit es (w\<lparr>is_area_surface_mapped := m\<rparr>)"
  "(emit es w)\<lparr>clear_window := c\<rparr> = emit es (w\<lparr>clear_window := c\<rparr>)"
  "(emit es w)\<lparr>next_video_info := i\<rparr> = emit es (w\<lparr>next_video_info := i\<rparr>)"
  "(emit es w)\<lparr>frame_callback_set := f\<rparr> = emit es (w\<lparr>frame_callback_set := f\<rparr>)"
  "(emit es w)\<lparr>commit_callback_set := f\<rparr> = emit es (w\<lparr>commit_callback_set := f\<rparr>)"
  "(emit es w)\<lparr>next_buffer := b\<rparr> = emit es (w\<lparr>next_buffer := b\<rparr>)"
  "(emit es w)\<lparr>staged_buffer := b\<rparr> = emit es (w\<lparr>staged_buffer := b\<rparr>)"
  "(emit es w)\<lparr>redraw_pending := p\<rparr> = emit es (w\<lparr>redraw_pending := p\<rparr>)"
  "(emit es w)\<lparr>configured := p\<rparr> = emit es (w\<lparr>configured := p\<rparr>)"
  by (simp_all add: emit_def)

lemma borders_emit:
  "\<exists>es. gst_wl_window_update_borders e w = emit es w \<and> (\<forall>x\<in>set es. geometry_request x)"
  by (simp add: gst_wl_window_update_borders_def Let_def)

lemma opaque_emit:
  "gst_wl_window_set_opaque e i w
     = emit (if \<not> info_has_alpha i \<and> \<not> has_dcss e
             then [Surface_set_opaque_region Video_surface] else []) w"
  by (simp add: gst_wl_window_set_opaque_def)

lemma resize_emit:
  "\<exists>vp. gst_wl_window_resize_video_surface e False w
       = emit (vp @ [Subsurface_set_position Video_surface
                       (rect_x (video_center_rect e (resize_src w) (resize_dst w)
                                  (video_viewport w)))
                       (rect_y (video_center_rect e (resize_src w) (resize_dst w)
                                  (video_viewport w))),
                     Surface_set_buffer_transform Video_surface (buffer_transform w)])
           (w\<lparr>video_rectangle :=
                video_center_rect e (resize_src w) (resize_dst w) (video_viewport w)\<rparr>)
     \<and> (\<forall>x\<in>set vp. geometry_request x)"
proof (cases "video_viewport w")
  case False
  then show ?thesis
    by (intro exI [of _ "[]"])
       (simp add: gst_wl_window_resize_video_surface_def Let_def)
next
  case True
  let ?res = "video_center_rect e (resize_src w) (resize_dst w) True"
  obtain src where src: "gst_wl_window_resize_video_surface e False w
       = emit ([Viewport_set_destination Video_surface (rect_w ?res) (rect_h ?res)] @ src
               @ [Subsurface_set_position Video_surface (rect_x ?res) (rect_y ?res),
                  Surface_set_buffer_transform Video_surface (buffer_transform w)])
           (w\<lparr>video_rectangle := ?res\<rparr>)"
      "\<forall>x\<in>set src. geometry_request x"
    using True
    by (simp add: gst_wl_window_resize_video_surface_def Let_def)
  show ?thesis
    by (rule exI [of _ "[Viewport_set_destination Video_surface (rect_w ?res) (rect_h ?res)]
                          @ src"])
       (simp add: src True)
qed

text \<open>The geometry a pending video info brings, as the commit applies it.\<close>

lemma apply_video_info_emit:
  "\<exists>vp. apply_video_info e i w
       = emit (info_requests e w i vp) (info_fields e w i)
     \<and> (\<forall>x\<in>set vp. geometry_request x)"
proof -
  let ?w0 = "w\<lparr>scaled_width :=
                uint64_scale_int_round e (info_width i) (info_par_n i) (info_par_d i),
              video_width := info_width i, video_height := info_height i\<rparr>"
  let ?res = "video_center_rect e (resize_src ?w0) (resize_dst w) (video_viewport w)"
  have src: "resize_src (emit [Subsurface_set_sync] ?w0) = resize_src ?w0"
     "resize_dst (emit [Subsurface_set_sync] ?w0) = resize_dst w"
    by (simp_all add: resize_src_def resize_dst_def)
  obtain vp where vp:
      "gst_wl_window_resize_video_surface e False (emit [Subsurface_set_sync] ?w0)
         = emit (Subsurface_set_sync # vp
                 @ [Subsurface_set_position Video_surface (rect_x ?res) (rect_y ?res),
                    Surface_set_buffer_transform Video_surface (buffer_transform w)])
             (?w0\<lparr>video_rectangle := ?res\<rparr>)"
      "\<forall>x\<in>set vp. geometry_request x"
    using resize_emit [of e "emit [Subsurface_set_sync] ?w0"] by (auto simp add: src)
  have "apply_video_info e i w = emit (info_requests e w i vp) (info_fields e w i)"
    by (simp add: apply_video_info_def vp(1) opaque_emit info_requests_def info_fields_def)
  with vp(2) show ?thesis by blast
qed

lemma info_fields_fields [simp]:
  "next_buffer (info_fields e w i) = next_buffer w"
  "staged_buffer (info_fields e w i) = staged_buffer w"
  "redraw_pending (info_fields e w i) = redraw_pending w"
  "clear_window (info_fields e w i) = clear_window w"
  "commit_callback_set (info_fields e w i) = commit_callback_set w"
  "frame_callback_set (info_fields e w i) = frame_callback_set w"
  "is_area_surface_mapped (info_fields e w i) = is_area_surface_mapped w"
  "surface_sync (info_fields e w i) = surface_sync w"
  "scale (info_fields e w i) = scale w"
  "configured (info_fields e w i) = configured w"
  "render_rectangle (info_fields e w i) = render_rectangle w"
  "next_video_info (info_fields e w i) = next_video_info w"
  "effects (info_fields e w i) = effects w"
  by (simp_all add: info_fields_def)

lemma apply_video_info_fields [simp]:
  "next_buffer (apply_video_info e i w) = next_buffer w"
  "staged_buffer (apply_video_info e i w) = staged_buffer w"
  "redraw_pending (apply_video_info e i w) = redraw_pending w"
  "clear_window (apply_video_info e i w) = clear_window w"
  "commit_callback_set (apply_video_info e i w) = commit_callback_set w"
  "frame_callback_set (apply_video_info e i w) = frame_callback_set w"
  "is_area_surface_mapped (apply_video_info e i w) = is_area_surface_mapped w"
  "surface_sync (apply_video_info e i w) = surface_sync w"
  "scale (apply_video_info e i w) = scale w"
  "configured (apply_video_info e i w) = configured w"
  "render_rectangle (apply_video_info e i w) = render_rectangle w"
  "next_video_info (apply_video_info e i w) = next_video_info w"
  using apply_video_info_emit [of e i w] by auto

lemma attach_shape:
  "\<exists>brd. attach_buffer e b w
       = emit ((if \<not> used_by_compositor e b \<and> surface_sync w then [Get_release b] else [])
               @ [Surface_frame Video_surface, Surface_attach Video_surface (Some b),
                  Surface_set_buffer_scale Video_surface (scale w),
                  Surface_damage_buffer Video_surface, Surface_commit Video_surface]
               @ (if \<not> is_area_surface_mapped w
                  then brd @ [Surface_commit Area_surface, Signal_emit MAP] else []))
           (w\<lparr>frame_callback_set := True, is_area_surface_mapped := True\<rparr>)
     \<and> (\<forall>x\<in>set brd. geometry_request x)"
proof (cases "is_area_surface_mapped w")
  case True
  let ?pre = "(if \<not> used_by_compositor e b \<and> surface_sync w then [Get_release b] else [])
               @ [Surface_frame Video_surface, Surface_attach Video_surface (Some b),
                  Surface_set_buffer_scale Video_surface (scale w),
                  Surface_damage_buffer Video_surface, Surface_commit Video_surface]"
  have "attach_buffer e b w = emit ?pre (w\<lparr>frame_callback_set := True\<rparr>)"
    using True by (simp add: attach_buffer_def Let_def)
  also have "w\<lparr>frame_callback_set := True\<rparr>
      = w\<lparr>frame_callback_set := True, is_area_surface_mapped := True\<rparr>"
    using True by simp
  finally have eq: "attach_buffer e b w
      = emit ?pre (w\<lparr>frame_callback_set := True, is_area_surface_mapped := True\<rparr>)" .
  show ?thesis
    by (rule exI [of _ "[]"]) (simp add: eq True)
next
  case False
  let ?pre = "(if \<not> used_by_compositor e b \<and> surface_sync w then [Get_release b] else [])
               @ [Surface_frame Video_surface, Surface_attach Video_surface (Some b),
                  Surface_set_buffer_scale Video_surface (scale w),
                  Surface_damage_buffer Video_surface, Surface_commit Video_surface]"
  let ?w3 = "emit ?pre (w\<lparr>frame_callback_set := True\<rparr>)"
  obtain brd where brd: "gst_wl_window_update_borders e ?w3 = emit brd ?w3"
      "\<forall>x\<in>set brd. geometry_request x"
    using borders_emit by blast
  have "attach_buffer e b w
      = emit [Signal_emit MAP]
          ((emit [Surface_commit Area_surface] (gst_wl_window_update_borders e ?w3))
             \<lparr>is_area_surface_mapped := True\<rparr>)"
    using False by (simp add: attach_buffer_def Let_def)
  also have "\<dots> = emit (?pre @ brd @ [Surface_commit Area_surface, Signal_emit MAP])
      (w\<lparr>frame_callback_set := True, is_area_surface_mapped := True\<rparr>)"
    unfolding brd(1) by simp
  finally have eq: "attach_buffer e b w
      = emit (?pre @ brd @ [Surface_commit Area_surface, Signal_emit MAP])
          (w\<lparr>frame_callback_set := True, is_area_surface_mapped := True\<rparr>)" .
  show ?thesis
    by (rule exI [of _ brd]) (simp add: eq False brd(2))
qed

lemma attach_fields [simp]:
  "next_buffer (attach_buffer e b w) = next_buffer w"
  "staged_buffer (attach_buffer e b w) = staged_buffer w"
  "redraw_pending (attach_buffer e b w) = redraw_pending w"
  "clear_window (attach_buffer e b w) = clear_window w"
  "commit_callback_set (attach_buffer e b w) = commit_callback_set w"
  "frame_callback_set (attach_buffer e b w)"
  "is_area_surface_mapped (attach_buffer e b w)"
  "surface_sync (attach_buffer e b w) = surface_sync w"
  "scale (attach_buffer e b w) = scale w"
  "next_video_info (attach_buffer e b w) = next_video_info w"
  "video_rectangle (attach_buffer e b w) = video_rectangle w"
  "scaled_width (attach_buffer e b w) = scaled_width w"
  "video_width (attach_buffer e b w) = video_width w"
  "video_height (attach_buffer e b w) = video_height w"
  using attach_shape [of e b w] by auto

lemma detach_fields [simp]:
  "next_buffer (detach_buffers w) = next_buffer w"
  "staged_buffer (detach_buffers w) = staged_buffer w"
  "redraw_pending (detach_buffers w) = redraw_pending w"
  "\<not> clear_window (detach_buffers w)"
  "commit_callback_set (detach_buffers w) = commit_callback_set w"
  "frame_callback_set (detach_buffers w) = frame_callback_set w"
  "\<not> is_area_surface_mapped (detach_buffers w)"
  "surface_sync (detach_buffers w) = surface_sync w"
  "scale (detach_buffers w) = scale w"
  "next_video_info (detach_buffers w) = next_video_info w"
  "video_rectangle (detach_buffers w) = video_rectangle w"
  "scaled_width (detach_buffers w) = scaled_width w"
  "video_width (detach_buffers w) = video_width w"
  "video_height (detach_buffers w) = video_height w"
  by (simp_all add: detach_buffers_def)

lemma commit_buffer_fields [simp]:
  "next_buffer (gst_wl_window_commit_buffer e w b) = next_buffer w"
  "staged_buffer (gst_wl_window_commit_buffer e w b) = staged_buffer w"
  "redraw_pending (gst_wl_window_commit_buffer e w b) = redraw_pending w"
  "commit_callback_set (gst_wl_window_commit_buffer e w b) = commit_callback_set w"
  "surface_sync (gst_wl_window_commit_buffer e w b) = surface_sync w"
  "scale (gst_wl_window_commit_buffer e w b) = scale w"
  "next_video_info (gst_wl_window_commit_buffer e w b) = None"
  "is_area_surface_mapped (gst_wl_window_commit_buffer e w b) = (b \<noteq> None)"
  "clear_window (gst_wl_window_commit_buffer e w b) = (b \<noteq> None \<and> clear_window w)"
  "frame_callback_set (gst_wl_window_commit_buffer e w b)
     = (b \<noteq> None \<or> frame_callback_set w)"
  by (cases b; cases "next_video_info w";
      simp add: gst_wl_window_commit_buffer_def Let_def)+

text \<open>The effects of one commit, in order.\<close>

lemma commit_buffer_effects:
  "\<exists>vp brd. effects (gst_wl_window_commit_buffer e w b)
              = effects w @ commit_requests e w b vp brd
     \<and> (\<forall>x\<in>set vp. geometry_request x) \<and> (\<forall>x\<in>set brd. geometry_request x)"
proof -
  let ?w1 = "case next_video_info w of Some i \<Rightarrow> apply_video_info e i w | None \<Rightarrow> w"
  obtain vp where vp:
      "effects ?w1 = effects w
         @ (case next_video_info w of None \<Rightarrow> [] | Some i \<Rightarrow> info_requests e w i vp)"
      "\<forall>x\<in>set vp. geometry_request x"
  proof (cases "next_video_info w")
    case None
    then show ?thesis using that [of "[]"] by simp
  next
    case (Some i)
    with apply_video_info_emit [of e i w] show ?thesis using that by auto
  qed
  have f1: "surface_sync ?w1 = surface_sync w" "scale ?w1 = scale w"
      "is_area_surface_mapped ?w1 = is_area_surface_mapped w"
    by (simp_all split: option.split)
  let ?w2 = "emit [Mutex_lock Commit_lock] ?w1"
  let ?w3 = "case b of Some x \<Rightarrow> attach_buffer e x ?w2 | None \<Rightarrow> detach_buffers ?w2"
  obtain brd where brd:
      "effects ?w3 = effects ?w2 @ buffer_requests e w b brd"
      "\<forall>x\<in>set brd. geometry_request x"
  proof (cases b)
    case None
    then show ?thesis
      using that [of "[]"] f1 by (simp add: detach_buffers_def buffer_requests_def)
  next
    case (Some x)
    obtain brd where "attach_buffer e x ?w2
       = emit ((if \<not> used_by_compositor e x \<and> surface_sync ?w2 then [Get_release x] else [])
               @ [Surface_frame Video_surface, Surface_attach Video_surface (Some x),
                  Surface_set_buffer_scale Video_surface (scale ?w2),
                  Surface_damage_buffer Video_surface, Surface_commit Video_surface]
               @ (if \<not> is_area_surface_mapped ?w2
                  then brd @ [Surface_commit Area_surface, Signal_emit MAP] else []))
           (?w2\<lparr>frame_callback_set := True, is_area_surface_mapped := True\<rparr>)"
       "\<forall>x\<in>set brd. geometry_request x"
      using attach_shape [of e x ?w2] by blast
    then show ?thesis using that [of brd] Some f1 by (simp add: buffer_requests_def)
  qed
  have "effects (gst_wl_window_commit_buffer e w b) = effects ?w3
       @ (case next_video_info w of
            None \<Rightarrow> []
          | Some i \<Rightarrow> [Surface_commit Area_surface, Subsurface_set_desync])
       @ [Mutex_unlock Commit_lock]"
    by (simp add: gst_wl_window_commit_buffer_def Let_def split: option.split)
  then have "effects (gst_wl_window_commit_buffer e w b)
      = effects w @ commit_requests e w b vp brd"
    using vp(1) brd(1) by (simp add: commit_requests_def)
  with vp(2) brd(2) show ?thesis by blast
qed

lemma apply_video_info_geometry [simp]:
  "scaled_width (apply_video_info e i w) = scaled_width (info_fields e w i)"
  "video_width (apply_video_info e i w) = video_width (info_fields e w i)"
  "video_height (apply_video_info e i w) = video_height (info_fields e w i)"
  "video_rectangle (apply_video_info e i w) = video_rectangle (info_fields e w i)"
proof -
  obtain vp where "apply_video_info e i w = emit (info_requests e w i vp) (info_fields e w i)"
    using apply_video_info_emit by blast
  then show
    "scaled_width (apply_video_info e i w) = scaled_width (info_fields e w i)"
    "video_width (apply_video_info e i w) = video_width (info_fields e w i)"
    "video_height (apply_video_info e i w) = video_height (info_fields e w i)"
    "video_rectangle (apply_video_info e i w) = video_rectangle (info_fields e w i)"
    by (simp_all add: emit_def)
qed



lemma commit_requests_cong:
  assumes "next_video_info w' = next_video_info w" "scale w' = scale w"
    "surface_sync w' = surface_sync w" "is_area_surface_mapped w' = is_area_surface_mapped w"
    "buffer_transform w' = buffer_transform w" "render_rectangle w' = render_rectangle w"
    "video_viewport w' = video_viewport w"
  shows "commit_requests e w' b vp brd = commit_requests e w b vp brd"
proof -
  have "info_requests e w' i vp = info_requests e w i vp" for i
    using assms
    by (simp add: info_requests_def info_fields_def resize_src_def resize_dst_def)
  then show ?thesis
    using assms
    by (cases b; cases "next_video_info w"; simp add: commit_requests_def buffer_requests_def)
qed

lemma commit_requests_sync_ops:
  assumes "\<forall>x\<in>set vp. geometry_request x" "\<forall>x\<in>set brd. geometry_request x"
  shows "Mutex_lock Window_lock \<notin> set (commit_requests e w b vp brd)"
    and "Mutex_unlock Window_lock \<notin> set (commit_requests e w b vp brd)"
    and "Buffer_unref y \<notin> set (commit_requests e w b vp brd)"
    and "Cond_signal cv \<notin> set (commit_requests e w b vp brd)"
  using assms
  by (auto simp add: commit_requests_def buffer_requests_def info_requests_def
      split: option.splits if_splits)

lemma commit_requests_counts:
  assumes "\<forall>x\<in>set vp. geometry_request x" "\<forall>x\<in>set brd. geometry_request x"
  shows "count_list (commit_requests e w b vp brd) Subsurface_set_sync
           = (if next_video_info w = None then 0 else 1)"
    and "count_list (commit_requests e w b vp brd) Subsurface_set_desync
           = (if next_video_info w = None then 0 else 1)"
    and "count_list (commit_requests e w b vp brd) (Surface_commit Video_surface) = 1"
  using assms
  by (auto simp add: commit_requests_def buffer_requests_def info_requests_def
      geometry_request_count split: option.splits)

lemma commit_requests_attach:
  assumes "\<forall>x\<in>set vp. geometry_request x" "\<forall>x\<in>set brd. geometry_request x"
  shows "\<exists>pre post. commit_requests e w (Some x) vp brd
           = pre @ [Surface_frame Video_surface, Surface_attach Video_surface (Some x),
                    Surface_set_buffer_scale Video_surface (scale w),
                    Surface_damage_buffer Video_surface, Surface_commit Video_surface] @ post"
    and "(Get_release x \<in> set (commit_requests e w (Some x) vp brd))
           = (surface_sync w \<and> \<not> used_by_compositor e x)"
    and "(Signal_emit MAP \<in> set (commit_requests e w (Some x) vp brd))
           = (\<not> is_area_surface_mapped w)"
proof -
  let ?five = "[Surface_frame Video_surface, Surface_attach Video_surface (Some x),
                    Surface_set_buffer_scale Video_surface (scale w),
                    Surface_damage_buffer Video_surface, Surface_commit Video_surface]"
  let ?pre = "(case next_video_info w of None \<Rightarrow> [] | Some i \<Rightarrow> info_requests e w i vp)
     @ [Mutex_lock Commit_lock]
     @ (if \<not> used_by_compositor e x \<and> surface_sync w then [Get_release x] else [])"
  let ?post = "(if \<not> is_area_surface_mapped w
             then brd @ [Surface_commit Area_surface, Signal_emit MAP] else [])
     @ (case next_video_info w of
          None \<Rightarrow> []
        | Some i \<Rightarrow> [Surface_commit Area_surface, Subsurface_set_desync])
     @ [Mutex_unlock Commit_lock]"
  have "commit_requests e w (Some x) vp brd = ?pre @ ?five @ ?post"
    by (simp add: commit_requests_def buffer_requests_def)
  then show "\<exists>pre post. commit_requests e w (Some x) vp brd = pre @ ?five @ post"
    by blast
  show "(Get_release x \<in> set (commit_requests e w (Some x) vp brd))
           = (surface_sync w \<and> \<not> used_by_compositor e x)"
    using assms
    by (auto simp add: commit_requests_def buffer_requests_def info_requests_def
        split: option.splits if_splits)
  show "(Signal_emit MAP \<in> set (commit_requests e w (Some x) vp brd))
           = (\<not> is_area_surface_mapped w)"
    using assms
    by (auto simp add: commit_requests_def buffer_requests_def info_requests_def
        split: option.splits if_splits)
qed

lemma commit_requests_detach:
  assumes "\<forall>x\<in>set vp. geometry_request x"
  shows "\<exists>pre post. commit_requests e w None vp brd
           = pre @ [Surface_attach Video_surface None,
                    Surface_set_buffer_scale Video_surface (scale w),
                    Surface_commit Video_surface,
                    Surface_attach Area_surface None,
                    Surface_commit Area_surface] @ post"
    and "Surface_frame Video_surface \<notin> set (commit_requests e w None vp brd)"
    and "Signal_emit MAP \<notin> set (commit_requests e w None vp brd)"
proof -
  let ?five = "[Surface_attach Video_surface None,
                    Surface_set_buffer_scale Video_surface (scale w),
                    Surface_commit Video_surface,
                    Surface_attach Area_surface None,
                    Surface_commit Area_surface]"
  let ?pre = "(case next_video_info w of None \<Rightarrow> [] | Some i \<Rightarrow> info_requests e w i vp)
     @ [Mutex_lock Commit_lock]"
  let ?post = "(case next_video_info w of
          None \<Rightarrow> []
        | Some i \<Rightarrow> [Surface_commit Area_surface, Subsurface_set_desync])
     @ [Mutex_unlock Commit_lock]"
  have "commit_requests e w None vp brd = ?pre @ ?five @ ?post"
    by (simp add: commit_requests_def buffer_requests_def)
  then show "\<exists>pre post. commit_requests e w None vp brd = pre @ ?five @ post"
    by blast
  show "Surface_frame Video_surface \<notin> set (commit_requests e w None vp brd)"
    using assms
    by (auto simp add: commit_requests_def buffer_requests_def info_requests_def
        split: option.splits if_splits)
  show "Signal_emit MAP \<notin> set (commit_requests e w None vp brd)"
    using assms
    by (auto simp add: commit_requests_def buffer_requests_def info_requests_def
        split: option.splits if_splits)
qed

lemma unref_buffer_emit:
  "unref_buffer b w = emit (case b of None \<Rightarrow> [] | Some x \<Rightarrow> [Buffer_unref x]) w"
  by (simp add: unref_buffer_def split: option.split)

lemma commit_callback_unfold:
  "commit_callback e w =
     emit (case next_buffer w of None \<Rightarrow> [] | Some x \<Rightarrow> [Buffer_unref x])
       (gst_wl_window_commit_buffer e
          (emit [Callback_destroy Commit_callback, Mutex_lock Window_lock,
                 Mutex_unlock Window_lock] (w\<lparr>commit_callback_set := False\<rparr>))
          (next_buffer w))"
  by (simp add: commit_callback_def Let_def unref_buffer_emit)

lemma commit_callback_effects:
  "\<exists>vp brd. effects (commit_callback e w) = effects w
       @ [Callback_destroy Commit_callback, Mutex_lock Window_lock, Mutex_unlock Window_lock]
       @ commit_requests e w (next_buffer w) vp brd
       @ (case next_buffer w of None \<Rightarrow> [] | Some x \<Rightarrow> [Buffer_unref x])
     \<and> (\<forall>x\<in>set vp. geometry_request x) \<and> (\<forall>x\<in>set brd. geometry_request x)"
proof -
  let ?w2 = "emit [Callback_destroy Commit_callback, Mutex_lock Window_lock,
                 Mutex_unlock Window_lock] (w\<lparr>commit_callback_set := False\<rparr>)"
  obtain vp brd where c: "effects (gst_wl_window_commit_buffer e ?w2 (next_buffer w))
              = effects ?w2 @ commit_requests e ?w2 (next_buffer w) vp brd"
     "\<forall>x\<in>set vp. geometry_request x" "\<forall>x\<in>set brd. geometry_request x"
    using commit_buffer_effects by blast
  have "commit_requests e ?w2 (next_buffer w) vp brd = commit_requests e w (next_buffer w) vp brd"
    by (rule commit_requests_cong) simp_all
  with c(1) have "effects (commit_callback e w) = effects w
       @ [Callback_destroy Commit_callback, Mutex_lock Window_lock, Mutex_unlock Window_lock]
       @ commit_requests e w (next_buffer w) vp brd
       @ (case next_buffer w of None \<Rightarrow> [] | Some x \<Rightarrow> [Buffer_unref x])"
    by (simp add: commit_callback_unfold)
  with c(2,3) show ?thesis by blast
qed

lemma commit_callback_fields [simp]:
  "next_buffer (commit_callback e w) = next_buffer w"
  "staged_buffer (commit_callback e w) = staged_buffer w"
  "redraw_pending (commit_callback e w) = redraw_pending w"
  "\<not> commit_callback_set (commit_callback e w)"
  "next_video_info (commit_callback e w) = None"
  "is_area_surface_mapped (commit_callback e w) = (next_buffer w \<noteq> None)"
  "clear_window (commit_callback e w) = (next_buffer w \<noteq> None \<and> clear_window w)"
  "frame_callback_set (commit_callback e w) = (next_buffer w \<noteq> None \<or> frame_callback_set w)"
  "scale (commit_callback e w) = scale w"
  by (simp_all add: commit_callback_unfold)

subsection \<open>The commit callback\<close>

text \<open>
  C3, as the code has it. The commit callback reads \<open>next_buffer\<close> and leaves it in its
  slot: the slot stays occupied until the frame callback replaces its content. It clears
  the pointer to the commit callback and runs the commit sequence once (one commit of the
  video surface). A pending video info is applied exactly once there (one
  \<^verbatim>\<open>wl_subsurface_set_sync\<close> when an info was pending, none otherwise) and is cleared.
  With a buffer in the slot the new effects contain, in this order, the request of a frame
  callback, the attachment of the buffer, scale, damage and the commit of the video
  surface, and they end with the release of the reference the state machine held; a
  release listener is set up exactly when the surface has a synchronization object and the
  compositor does not already use the buffer; the signal \<open>MAP\<close> is emitted exactly when
  the area surface was not mapped; afterwards it is mapped and a frame callback is
  pending. With an empty slot null is attached to the video and to the area surface, both
  are committed, no frame callback is requested, and the flags \<open>is_area_surface_mapped\<close>
  and \<open>clear_window\<close> are cleared.
\<close>

theorem commit_callback_commits_next_buffer:
  assumes "scale w \<noteq> 0"
  shows "next_buffer (commit_callback e w) = next_buffer w
    \<and> \<not> commit_callback_set (commit_callback e w)
    \<and> next_video_info (commit_callback e w) = None
    \<and> count_list (new_effects w (commit_callback e w)) Subsurface_set_sync
        = (if next_video_info w = None then 0 else 1)
    \<and> count_list (new_effects w (commit_callback e w)) (Surface_commit Video_surface) = 1
    \<and> (\<forall>b. next_buffer w = Some b \<longrightarrow>
          (\<exists>pre post. new_effects w (commit_callback e w)
             = pre @ [Surface_frame Video_surface, Surface_attach Video_surface (Some b),
                      Surface_set_buffer_scale Video_surface (scale w),
                      Surface_damage_buffer Video_surface, Surface_commit Video_surface]
                 @ post @ [Buffer_unref b])
          \<and> (Get_release b \<in> set (new_effects w (commit_callback e w)))
              = (surface_sync w \<and> \<not> used_by_compositor e b)
          \<and> (Signal_emit MAP \<in> set (new_effects w (commit_callback e w)))
              = (\<not> is_area_surface_mapped w)
          \<and> is_area_surface_mapped (commit_callback e w)
          \<and> frame_callback_set (commit_callback e w))
    \<and> (next_buffer w = None \<longrightarrow>
          (\<exists>pre post. new_effects w (commit_callback e w)
             = pre @ [Surface_attach Video_surface None,
                      Surface_set_buffer_scale Video_surface (scale w),
                      Surface_commit Video_surface,
                      Surface_attach Area_surface None,
                      Surface_commit Area_surface] @ post)
          \<and> Surface_frame Video_surface \<notin> set (new_effects w (commit_callback e w))
          \<and> \<not> is_area_surface_mapped (commit_callback e w)
          \<and> \<not> clear_window (commit_callback e w))"
proof -
  let ?head = "[Callback_destroy Commit_callback, Mutex_lock Window_lock,
                Mutex_unlock Window_lock]"
  obtain vp brd where eff: "effects (commit_callback e w) = effects w
       @ ?head @ commit_requests e w (next_buffer w) vp brd
       @ (case next_buffer w of None \<Rightarrow> [] | Some x \<Rightarrow> [Buffer_unref x])"
     and g: "\<forall>x\<in>set vp. geometry_request x" "\<forall>x\<in>set brd. geometry_request x"
    using commit_callback_effects by blast
  let ?cr = "commit_requests e w (next_buffer w) vp brd"
  have new: "new_effects w (commit_callback e w)
      = ?head @ ?cr @ (case next_buffer w of None \<Rightarrow> [] | Some x \<Rightarrow> [Buffer_unref x])"
    using eff by (rule new_effects_eq)
  have counts: "count_list (new_effects w (commit_callback e w)) Subsurface_set_sync
        = (if next_video_info w = None then 0 else 1)"
      "count_list (new_effects w (commit_callback e w)) (Surface_commit Video_surface) = 1"
    using commit_requests_counts [OF g, where e = e and w = w and b = "next_buffer w"]
    by (simp_all add: new split: option.split)
  have some: "(\<exists>pre post. new_effects w (commit_callback e w)
             = pre @ [Surface_frame Video_surface, Surface_attach Video_surface (Some b),
                      Surface_set_buffer_scale Video_surface (scale w),
                      Surface_damage_buffer Video_surface, Surface_commit Video_surface]
                 @ post @ [Buffer_unref b])
          \<and> (Get_release b \<in> set (new_effects w (commit_callback e w)))
              = (surface_sync w \<and> \<not> used_by_compositor e b)
          \<and> (Signal_emit MAP \<in> set (new_effects w (commit_callback e w)))
              = (\<not> is_area_surface_mapped w)"
    if b: "next_buffer w = Some b" for b
  proof -
    obtain pre post where pp: "commit_requests e w (Some b) vp brd
           = pre @ [Surface_frame Video_surface, Surface_attach Video_surface (Some b),
                    Surface_set_buffer_scale Video_surface (scale w),
                    Surface_damage_buffer Video_surface, Surface_commit Video_surface] @ post"
      using commit_requests_attach(1) [OF g] by blast
    have "new_effects w (commit_callback e w)
        = (?head @ pre) @ [Surface_frame Video_surface, Surface_attach Video_surface (Some b),
                    Surface_set_buffer_scale Video_surface (scale w),
                    Surface_damage_buffer Video_surface, Surface_commit Video_surface]
            @ post @ [Buffer_unref b]"
      by (simp add: new b pp)
    then have "\<exists>pre post. new_effects w (commit_callback e w)
             = pre @ [Surface_frame Video_surface, Surface_attach Video_surface (Some b),
                      Surface_set_buffer_scale Video_surface (scale w),
                      Surface_damage_buffer Video_surface, Surface_commit Video_surface]
                 @ post @ [Buffer_unref b]"
      by blast
    then show ?thesis
      using commit_requests_attach(2,3) [OF g, where e = e and w = w and x = b] by (simp add: new b)
  qed
  have none: "(\<exists>pre post. new_effects w (commit_callback e w)
             = pre @ [Surface_attach Video_surface None,
                      Surface_set_buffer_scale Video_surface (scale w),
                      Surface_commit Video_surface,
                      Surface_attach Area_surface None,
                      Surface_commit Area_surface] @ post)
          \<and> Surface_frame Video_surface \<notin> set (new_effects w (commit_callback e w))"
    if n: "next_buffer w = None"
  proof -
    obtain pre post where pp: "commit_requests e w None vp brd
           = pre @ [Surface_attach Video_surface None,
                    Surface_set_buffer_scale Video_surface (scale w),
                    Surface_commit Video_surface,
                    Surface_attach Area_surface None,
                    Surface_commit Area_surface] @ post"
      using commit_requests_detach(1) [OF g(1)] by blast
    have "new_effects w (commit_callback e w)
        = (?head @ pre) @ [Surface_attach Video_surface None,
                    Surface_set_buffer_scale Video_surface (scale w),
                    Surface_commit Video_surface,
                    Surface_attach Area_surface None,
                    Surface_commit Area_surface] @ post"
      by (simp add: new n pp)
    then have "\<exists>pre post. new_effects w (commit_callback e w)
             = pre @ [Surface_attach Video_surface None,
                      Surface_set_buffer_scale Video_surface (scale w),
                      Surface_commit Video_surface,
                      Surface_attach Area_surface None,
                      Surface_commit Area_surface] @ post"
      by blast
    then show ?thesis
      using commit_requests_detach(2) [OF g(1), where e = e and w = w and brd = brd] by (simp add: new n)
  qed
  show ?thesis
    using counts some none by simp
qed

theorem commit_callback_commits_next_buffer_witness:
  "scale in_flight_window \<noteq> 0 \<and> next_buffer in_flight_window = Some 1
   \<and> next_buffer (commit_callback plain_env in_flight_window) = Some 1
   \<and> frame_callback_set (commit_callback plain_env in_flight_window)
   \<and> count_list (new_effects in_flight_window (commit_callback plain_env in_flight_window))
        (Surface_commit Video_surface) = 1"
proof -
  have h: "scale in_flight_window \<noteq> 0" "next_buffer in_flight_window = Some 1"
    by (simp_all add: in_flight_window_def render_leave_def render_enter_def Let_def
        gst_wl_window_init_def unref_buffer_def)
  from commit_callback_commits_next_buffer [OF h(1), of plain_env] h
  show ?thesis by simp
qed

text \<open>
  C3 as stated fails where it says that the callback pops \<open>next_buffer\<close>: after one
  render call on a fresh window buffer 1 is in the slot with the commit callback
  requested, and after the callback has run buffer 1 is still there.
\<close>

theorem commit_callback_keeps_next_buffer:
  "gst_wl_window_render plain_env [] gst_wl_window_init (Some 1) None
     = Some (in_flight_window, True)
   \<and> next_buffer in_flight_window = Some 1
   \<and> commit_callback_set in_flight_window
   \<and> next_buffer (commit_callback plain_env in_flight_window) = Some 1"
  by (simp add: gst_wl_window_render_def in_flight_window_def render_leave_def render_enter_def
      Let_def gst_wl_window_init_def unref_buffer_def)

lemma frame_unlocked_fields [simp]:
  "next_buffer (frame_unlocked w) = staged_buffer w"
  "staged_buffer (frame_unlocked w) = None"
  "\<not> redraw_pending (frame_unlocked w)"
  "\<not> frame_callback_set (frame_unlocked w)"
  "clear_window (frame_unlocked w) = clear_window w"
  "next_video_info (frame_unlocked w) = next_video_info w"
  "scale (frame_unlocked w) = scale w"
  "surface_sync (frame_unlocked w) = surface_sync w"
  "is_area_surface_mapped (frame_unlocked w) = is_area_surface_mapped w"
  "buffer_transform (frame_unlocked w) = buffer_transform w"
  "render_rectangle (frame_unlocked w) = render_rectangle w"
  "video_viewport (frame_unlocked w) = video_viewport w"
  "effects (frame_unlocked w) = effects w
     @ [Callback_destroy Frame_callback, Mutex_lock Window_lock,
        Cond_signal Redraw_wait, Mutex_unlock Window_lock]"
  by (simp_all add: frame_unlocked_def)

lemma frame_redraw_unfold:
  "frame_redraw_callback e w =
     unref_buffer (staged_buffer w)
       (if staged_buffer w \<noteq> None \<or> clear_window w
        then gst_wl_window_commit_buffer e (frame_unlocked w) (staged_buffer w)
        else frame_unlocked w)"
  by (simp add: frame_redraw_callback_def Let_def frame_unlocked_def)

lemma frame_redraw_fields [simp]:
  "next_buffer (frame_redraw_callback e w) = staged_buffer w"
  "staged_buffer (frame_redraw_callback e w) = None"
  "\<not> redraw_pending (frame_redraw_callback e w)"
  "scale (frame_redraw_callback e w) = scale w"
  by (simp_all add: frame_redraw_unfold unref_buffer_emit)

lemma frame_redraw_effects:
  "\<exists>vp brd. effects (frame_redraw_callback e w) = effects w
       @ [Callback_destroy Frame_callback, Mutex_lock Window_lock,
          Cond_signal Redraw_wait, Mutex_unlock Window_lock]
       @ (if staged_buffer w \<noteq> None \<or> clear_window w
          then commit_requests e w (staged_buffer w) vp brd else [])
       @ (case staged_buffer w of None \<Rightarrow> [] | Some x \<Rightarrow> [Buffer_unref x])
     \<and> (\<forall>x\<in>set vp. geometry_request x) \<and> (\<forall>x\<in>set brd. geometry_request x)"
proof -
  obtain vp brd where c:
     "effects (gst_wl_window_commit_buffer e (frame_unlocked w) (staged_buffer w))
        = effects (frame_unlocked w) @ commit_requests e (frame_unlocked w) (staged_buffer w) vp brd"
     "\<forall>x\<in>set vp. geometry_request x" "\<forall>x\<in>set brd. geometry_request x"
    using commit_buffer_effects by blast
  have "commit_requests e (frame_unlocked w) (staged_buffer w) vp brd
      = commit_requests e w (staged_buffer w) vp brd"
    by (rule commit_requests_cong) simp_all
  with c(1) have "effects (frame_redraw_callback e w) = effects w
       @ [Callback_destroy Frame_callback, Mutex_lock Window_lock,
          Cond_signal Redraw_wait, Mutex_unlock Window_lock]
       @ (if staged_buffer w \<noteq> None \<or> clear_window w
          then commit_requests e w (staged_buffer w) vp brd else [])
       @ (case staged_buffer w of None \<Rightarrow> [] | Some x \<Rightarrow> [Buffer_unref x])"
    by (simp add: frame_redraw_unfold unref_buffer_emit)
  with c(2,3) show ?thesis by blast
qed

subsection \<open>The frame callback\<close>

text \<open>
  C2. Every run of \<^verbatim>\<open>frame_redraw_callback\<close> moves the staged buffer into the in-flight
  slot, empties the staged slot and clears \<open>redraw_pending\<close>. Its first four effects are
  the destruction of the callback, the lock of the window lock, the signal on the
  condition \<^verbatim>\<open>redraw_wait\<close> that \<^verbatim>\<open>gst_wl_window_render\<close> waits on, and the unlock. Everything
  after that happens with the window lock released, and the lock is not taken again. When
  a buffer was promoted or \<open>clear_window\<close> is set, what follows is a direct call of
  \<^verbatim>\<open>gst_wl_window_commit_buffer\<close> on the window as the unlock left it: the attachment and
  commit of the promoted buffer, followed by the release of its reference, or the
  detachment of both surfaces. Otherwise nothing follows.
\<close>

theorem frame_redraw_callback_promotes_staged:
  assumes "scale w \<noteq> 0"
  shows "next_buffer (frame_redraw_callback e w) = staged_buffer w
    \<and> staged_buffer (frame_redraw_callback e w) = None
    \<and> \<not> redraw_pending (frame_redraw_callback e w)
    \<and> take 4 (new_effects w (frame_redraw_callback e w))
        = [Callback_destroy Frame_callback, Mutex_lock Window_lock,
           Cond_signal Redraw_wait, Mutex_unlock Window_lock]
    \<and> Mutex_lock Window_lock \<notin> set (drop 4 (new_effects w (frame_redraw_callback e w)))
    \<and> Mutex_unlock Window_lock \<notin> set (drop 4 (new_effects w (frame_redraw_callback e w)))
    \<and> frame_redraw_callback e w
        = unref_buffer (staged_buffer w)
            (if staged_buffer w \<noteq> None \<or> clear_window w
             then gst_wl_window_commit_buffer e (frame_unlocked w) (staged_buffer w)
             else frame_unlocked w)
    \<and> (staged_buffer w = None \<and> \<not> clear_window w \<longrightarrow>
          drop 4 (new_effects w (frame_redraw_callback e w)) = [])
    \<and> (\<forall>b. staged_buffer w = Some b \<longrightarrow>
          (\<exists>pre post. drop 4 (new_effects w (frame_redraw_callback e w))
             = pre @ [Surface_frame Video_surface, Surface_attach Video_surface (Some b),
                      Surface_set_buffer_scale Video_surface (scale w),
                      Surface_damage_buffer Video_surface, Surface_commit Video_surface]
                 @ post @ [Buffer_unref b]))
    \<and> (staged_buffer w = None \<and> clear_window w \<longrightarrow>
          (\<exists>pre post. drop 4 (new_effects w (frame_redraw_callback e w))
             = pre @ [Surface_attach Video_surface None,
                      Surface_set_buffer_scale Video_surface (scale w),
                      Surface_commit Video_surface,
                      Surface_attach Area_surface None,
                      Surface_commit Area_surface] @ post))"
proof -
  let ?head = "[Callback_destroy Frame_callback, Mutex_lock Window_lock,
                Cond_signal Redraw_wait, Mutex_unlock Window_lock]"
  obtain vp brd where eff: "effects (frame_redraw_callback e w) = effects w
       @ ?head
       @ (if staged_buffer w \<noteq> None \<or> clear_window w
          then commit_requests e w (staged_buffer w) vp brd else [])
       @ (case staged_buffer w of None \<Rightarrow> [] | Some x \<Rightarrow> [Buffer_unref x])"
     and g: "\<forall>x\<in>set vp. geometry_request x" "\<forall>x\<in>set brd. geometry_request x"
    using frame_redraw_effects by blast
  let ?tail = "(if staged_buffer w \<noteq> None \<or> clear_window w
          then commit_requests e w (staged_buffer w) vp brd else [])
       @ (case staged_buffer w of None \<Rightarrow> [] | Some x \<Rightarrow> [Buffer_unref x])"
  have new: "new_effects w (frame_redraw_callback e w) = ?head @ ?tail"
    using eff by (simp add: new_effects_eq)
  have head: "take 4 (new_effects w (frame_redraw_callback e w)) = ?head"
    by (simp add: new)
  have tail: "drop 4 (new_effects w (frame_redraw_callback e w)) = ?tail"
    by (simp add: new)
  have locks: "Mutex_lock Window_lock \<notin> set ?tail" "Mutex_unlock Window_lock \<notin> set ?tail"
    using commit_requests_sync_ops(1,2) [OF g, where e = e and w = w and b = "staged_buffer w"]
    by (auto split: option.splits)
  have idle: "?tail = []" if "staged_buffer w = None" "\<not> clear_window w"
    using that by simp
  have some: "\<exists>pre post. ?tail
             = pre @ [Surface_frame Video_surface, Surface_attach Video_surface (Some b),
                      Surface_set_buffer_scale Video_surface (scale w),
                      Surface_damage_buffer Video_surface, Surface_commit Video_surface]
                 @ post @ [Buffer_unref b]"
    if b: "staged_buffer w = Some b" for b
  proof -
    obtain pre post where pp: "commit_requests e w (Some b) vp brd
           = pre @ [Surface_frame Video_surface, Surface_attach Video_surface (Some b),
                    Surface_set_buffer_scale Video_surface (scale w),
                    Surface_damage_buffer Video_surface, Surface_commit Video_surface] @ post"
      using commit_requests_attach(1) [OF g] by blast
    have "?tail = pre @ [Surface_frame Video_surface, Surface_attach Video_surface (Some b),
                    Surface_set_buffer_scale Video_surface (scale w),
                    Surface_damage_buffer Video_surface, Surface_commit Video_surface]
              @ post @ [Buffer_unref b]"
      by (simp add: b pp)
    then show ?thesis by blast
  qed
  have none: "\<exists>pre post. ?tail
             = pre @ [Surface_attach Video_surface None,
                      Surface_set_buffer_scale Video_surface (scale w),
                      Surface_commit Video_surface,
                      Surface_attach Area_surface None,
                      Surface_commit Area_surface] @ post"
    if n: "staged_buffer w = None" "clear_window w"
  proof -
    obtain pre post where pp: "commit_requests e w None vp brd
           = pre @ [Surface_attach Video_surface None,
                    Surface_set_buffer_scale Video_surface (scale w),
                    Surface_commit Video_surface,
                    Surface_attach Area_surface None,
                    Surface_commit Area_surface] @ post"
      using commit_requests_detach(1) [OF g(1)] by blast
    have "?tail = pre @ [Surface_attach Video_surface None,
                    Surface_set_buffer_scale Video_surface (scale w),
                    Surface_commit Video_surface,
                    Surface_attach Area_surface None,
                    Surface_commit Area_surface] @ post"
      by (simp add: n pp)
    then show ?thesis by blast
  qed
  have f: "next_buffer (frame_redraw_callback e w) = staged_buffer w"
    "staged_buffer (frame_redraw_callback e w) = None"
    "\<not> redraw_pending (frame_redraw_callback e w)"
    by simp_all
  note u = frame_redraw_unfold [of e w]
  show ?thesis
    unfolding tail head
    using f locks idle some none u by blast
qed

theorem frame_redraw_callback_promotes_staged_witness:
  "scale (in_flight_window\<lparr>staged_buffer := Some 2\<rparr>) \<noteq> 0
   \<and> staged_buffer (in_flight_window\<lparr>staged_buffer := Some 2\<rparr>) = Some 2
   \<and> next_buffer (frame_redraw_callback plain_env (in_flight_window\<lparr>staged_buffer := Some 2\<rparr>))
       = staged_buffer (in_flight_window\<lparr>staged_buffer := Some 2\<rparr>)
   \<and> Mutex_lock Window_lock
       \<notin> set (drop 4 (new_effects (in_flight_window\<lparr>staged_buffer := Some 2\<rparr>)
                  (frame_redraw_callback plain_env
                     (in_flight_window\<lparr>staged_buffer := Some 2\<rparr>))))
   \<and> (\<exists>pre post.
         drop 4 (new_effects (in_flight_window\<lparr>staged_buffer := Some 2\<rparr>)
                  (frame_redraw_callback plain_env
                     (in_flight_window\<lparr>staged_buffer := Some 2\<rparr>)))
         = pre @ [Surface_frame Video_surface, Surface_attach Video_surface (Some 2),
                  Surface_set_buffer_scale Video_surface
                    (scale (in_flight_window\<lparr>staged_buffer := Some 2\<rparr>)),
                  Surface_damage_buffer Video_surface, Surface_commit Video_surface]
             @ post @ [Buffer_unref 2])
   \<and> scale gst_wl_window_init \<noteq> 0
   \<and> staged_buffer gst_wl_window_init = None \<and> \<not> clear_window gst_wl_window_init
   \<and> drop 4 (new_effects gst_wl_window_init
               (frame_redraw_callback plain_env gst_wl_window_init)) = []"
proof -
  have h: "scale (in_flight_window\<lparr>staged_buffer := Some 2\<rparr>) \<noteq> 0"
    "staged_buffer (in_flight_window\<lparr>staged_buffer := Some 2\<rparr>) = Some 2"
    "scale gst_wl_window_init \<noteq> 0"
    "staged_buffer gst_wl_window_init = None" "\<not> clear_window gst_wl_window_init"
    by (simp_all add: in_flight_window_def render_leave_def render_enter_def Let_def
        gst_wl_window_init_def unref_buffer_def)
  note t1 = frame_redraw_callback_promotes_staged [OF h(1), of plain_env]
  note t2 = frame_redraw_callback_promotes_staged [OF h(3), of plain_env]
  from t1 t2 h show ?thesis by blast
qed

lemma redraw_wait_idle: "\<not> redraw_pending w \<Longrightarrow> redraw_wait e ds w = Some w"
  by (cases ds) simp_all

lemma render_enter_fields [simp]:
  "redraw_pending (render_enter w buffer info) = redraw_pending w"
  "next_buffer (render_enter w buffer info) = next_buffer w"
  "staged_buffer (render_enter w buffer info) = staged_buffer w"
  "scale (render_enter w buffer info) = scale w"
  "next_video_info (render_enter w buffer info)
     = (case info of None \<Rightarrow> next_video_info w | Some i \<Rightarrow> Some i)"
  by (simp_all add: render_enter_def Let_def split: option.split)

lemma render_leave_info [simp]:
  "next_video_info (fst (render_leave w buffer)) = next_video_info w"
  by (simp add: render_leave_def Let_def unref_buffer_emit)

lemma render_idle:
  "\<not> redraw_pending w \<Longrightarrow>
     gst_wl_window_render e ds w buffer info
       = Some (render_leave (render_enter w buffer info) buffer)"
  by (simp add: gst_wl_window_render_def redraw_wait_idle)

subsection \<open>Pending video info\<close>



lemma redraw_wait_result:
  "redraw_wait e ds w = Some w1 \<Longrightarrow> \<not> redraw_pending w1"
  by (induction ds arbitrary: w) (auto split: if_splits)

lemma render_leave_full:
  assumes "next_buffer w = Some a" "staged_buffer w = Some old"
  shows "render_leave w buffer
     = (emit [Buffer_unref old, Mutex_unlock Window_lock]
          (if buffer = None then w\<lparr>staged_buffer := buffer, clear_window := True\<rparr>
           else w\<lparr>staged_buffer := buffer\<rparr>), False)"
  using assms by (simp add: render_leave_def Let_def unref_buffer_emit)

lemma render_leave_empty:
  assumes "next_buffer w = None"
  shows "render_leave w buffer
     = (emit [Display_sync, Display_flush, Mutex_unlock Window_lock]
          (if buffer = None
           then w\<lparr>next_buffer := buffer, redraw_pending := True,
                  commit_callback_set := True, clear_window := True\<rparr>
           else w\<lparr>next_buffer := buffer, redraw_pending := True,
                  commit_callback_set := True\<rparr>), True)"
  using assms by (simp add: render_leave_def Let_def)

lemma render_leave_stage:
  assumes "next_buffer w = Some a" "staged_buffer w = None"
  shows "render_leave w buffer
     = (emit [Mutex_unlock Window_lock]
          (if buffer = None then w\<lparr>staged_buffer := buffer, clear_window := True\<rparr>
           else w\<lparr>staged_buffer := buffer\<rparr>), True)"
  using assms by (simp add: render_leave_def Let_def)

subsection \<open>Rendering\<close>

lemma render_result:
  assumes "scale w \<noteq> 0"
    and "gst_wl_window_render e ds w buffer info = Some (w', ret)"
  shows "\<exists>w1. redraw_wait e ds (render_enter w buffer info) = Some w1
       \<and> \<not> redraw_pending w1
       \<and> (\<not> redraw_pending w \<longrightarrow>
             next_buffer w1 = next_buffer w \<and> staged_buffer w1 = staged_buffer w)
       \<and> (\<forall>a old. next_buffer w1 = Some a \<and> staged_buffer w1 = Some old \<longrightarrow>
             \<not> ret \<and> next_buffer w' = Some a \<and> staged_buffer w' = buffer
             \<and> new_effects w1 w' = [Buffer_unref old, Mutex_unlock Window_lock])
       \<and> (next_buffer w1 = None \<or> staged_buffer w1 = None \<longrightarrow>
             ret \<and> (\<forall>x. Buffer_unref x \<notin> set (new_effects w1 w')))
       \<and> (next_buffer w1 = None \<longrightarrow>
             next_buffer w' = buffer \<and> staged_buffer w' = staged_buffer w1
             \<and> redraw_pending w' \<and> commit_callback_set w')
       \<and> (\<forall>a. next_buffer w1 = Some a \<and> staged_buffer w1 = None \<longrightarrow>
             next_buffer w' = Some a \<and> staged_buffer w' = buffer)
       \<and> card (set_option (next_buffer w')) \<le> 1
       \<and> card (set_option (staged_buffer w')) \<le> 1"
proof -
  from assms(2) obtain w1 where
      w1: "redraw_wait e ds (render_enter w buffer info) = Some w1"
      and leave: "render_leave w1 buffer = (w', ret)"
    by (auto simp add: gst_wl_window_render_def split: option.splits)
  have idle: "\<not> redraw_pending w1" using w1 by (rule redraw_wait_result)
  have same: "next_buffer w1 = next_buffer w \<and> staged_buffer w1 = staged_buffer w"
    if "\<not> redraw_pending w"
  proof -
    have "redraw_wait e ds (render_enter w buffer info) = Some (render_enter w buffer info)"
      using that by (simp add: redraw_wait_idle)
    with w1 have "w1 = render_enter w buffer info" by simp
    then show ?thesis by simp
  qed
  have full: "\<not> ret \<and> next_buffer w' = Some a \<and> staged_buffer w' = buffer
             \<and> new_effects w1 w' = [Buffer_unref old, Mutex_unlock Window_lock]"
    if "next_buffer w1 = Some a" "staged_buffer w1 = Some old" for a old
    using leave that render_leave_full [OF that, of buffer]
    by (auto simp add: new_effects_def)
  have empty: "ret \<and> (\<forall>x. Buffer_unref x \<notin> set (new_effects w1 w'))
      \<and> next_buffer w' = buffer \<and> staged_buffer w' = staged_buffer w1
      \<and> redraw_pending w' \<and> commit_callback_set w'"
    if "next_buffer w1 = None"
    using leave that render_leave_empty [OF that, of buffer]
    by (auto simp add: new_effects_def)
  have stage: "ret \<and> (\<forall>x. Buffer_unref x \<notin> set (new_effects w1 w'))
      \<and> next_buffer w' = Some a \<and> staged_buffer w' = buffer"
    if "next_buffer w1 = Some a" "staged_buffer w1 = None" for a
    using leave that render_leave_stage [OF that, of buffer]
    by (auto simp add: new_effects_def)
  have slots: "card (set_option (next_buffer w')) \<le> 1"
      "card (set_option (staged_buffer w')) \<le> 1"
    by (cases "next_buffer w'"; simp) (cases "staged_buffer w'"; simp)
  have noone: "ret \<and> (\<forall>x. Buffer_unref x \<notin> set (new_effects w1 w'))"
    if "next_buffer w1 = None \<or> staged_buffer w1 = None"
    using that empty stage by (cases "next_buffer w1") auto
  show ?thesis
    using w1 idle same full empty stage slots noone
    by (intro exI [of _ w1] conjI) blast+
qed

text \<open>
  C1. Each of the two slots is a single pointer, so it holds at most one buffer. A call
  of \<^verbatim>\<open>gst_wl_window_render\<close> on a window without a pending redraw returns at once; with
  both slots occupied it returns false, having released the staged buffer and put the new
  buffer in its place, the in-flight slot untouched: the release and the unlock are all it
  does after taking the lock. In general a call that returns has left its wait in a
  window \<open>w1\<close> without a pending redraw, and what it does is decided by the slots of
  \<open>w1\<close>. When both are occupied, the staged buffer is released at once, the new buffer
  takes the staged slot and the call returns false. In every other case the call returns
  true and releases nothing: with the in-flight slot empty the new buffer goes there, a
  redraw becomes pending and a commit callback is requested; with only the staged slot
  empty the new buffer is staged.
\<close>

theorem render_drops_staged_when_full:
  assumes "scale w \<noteq> 0"
  shows "(\<not> redraw_pending w \<longrightarrow>
            (\<exists>w' ret. gst_wl_window_render e ds w buffer info = Some (w', ret)))
     \<and> (\<forall>a old. \<not> redraw_pending w \<and> next_buffer w = Some a \<and> staged_buffer w = Some old
           \<longrightarrow>
           (\<exists>w'. gst_wl_window_render e ds w buffer info = Some (w', False)
              \<and> next_buffer w' = Some a \<and> staged_buffer w' = buffer
              \<and> new_effects (render_enter w buffer info) w'
                  = [Buffer_unref old, Mutex_unlock Window_lock]))
     \<and> (\<forall>w' ret. gst_wl_window_render e ds w buffer info = Some (w', ret) \<longrightarrow>
           (\<exists>w1. redraw_wait e ds (render_enter w buffer info) = Some w1
              \<and> \<not> redraw_pending w1
              \<and> (\<not> redraw_pending w \<longrightarrow>
                    next_buffer w1 = next_buffer w \<and> staged_buffer w1 = staged_buffer w)
              \<and> (\<forall>a old. next_buffer w1 = Some a \<and> staged_buffer w1 = Some old \<longrightarrow>
                    \<not> ret \<and> next_buffer w' = Some a \<and> staged_buffer w' = buffer
                    \<and> new_effects w1 w' = [Buffer_unref old, Mutex_unlock Window_lock])
              \<and> (next_buffer w1 = None \<or> staged_buffer w1 = None \<longrightarrow>
                    ret \<and> (\<forall>x. Buffer_unref x \<notin> set (new_effects w1 w')))
              \<and> (next_buffer w1 = None \<longrightarrow>
                    next_buffer w' = buffer \<and> staged_buffer w' = staged_buffer w1
                    \<and> redraw_pending w' \<and> commit_callback_set w')
              \<and> (\<forall>a. next_buffer w1 = Some a \<and> staged_buffer w1 = None \<longrightarrow>
                    next_buffer w' = Some a \<and> staged_buffer w' = buffer)
              \<and> card (set_option (next_buffer w')) \<le> 1
              \<and> card (set_option (staged_buffer w')) \<le> 1))"
proof -
  have returns: "\<exists>w' ret. gst_wl_window_render e ds w buffer info = Some (w', ret)"
    if "\<not> redraw_pending w"
  proof -
    have "gst_wl_window_render e ds w buffer info
        = Some (fst (render_leave (render_enter w buffer info) buffer),
                snd (render_leave (render_enter w buffer info) buffer))"
      using that by (simp add: render_idle)
    then show ?thesis by blast
  qed
  have drops: "\<exists>w'. gst_wl_window_render e ds w buffer info = Some (w', False)
              \<and> next_buffer w' = Some a \<and> staged_buffer w' = buffer
              \<and> new_effects (render_enter w buffer info) w'
                  = [Buffer_unref old, Mutex_unlock Window_lock]"
    if "\<not> redraw_pending w" "next_buffer w = Some a" "staged_buffer w = Some old" for a old
  proof -
    let ?w1 = "render_enter w buffer info"
    have slots: "next_buffer ?w1 = Some a" "staged_buffer ?w1 = Some old"
      using that by simp_all
    let ?w' = "emit [Buffer_unref old, Mutex_unlock Window_lock]
          (if buffer = None then ?w1\<lparr>staged_buffer := buffer, clear_window := True\<rparr>
           else ?w1\<lparr>staged_buffer := buffer\<rparr>)"
    have "gst_wl_window_render e ds w buffer info = Some (?w', False)"
      using that(1) render_leave_full [OF slots, of buffer] by (simp add: render_idle)
    moreover have "next_buffer ?w' = Some a" "staged_buffer ?w' = buffer"
      using slots by simp_all
    moreover have "new_effects ?w1 ?w' = [Buffer_unref old, Mutex_unlock Window_lock]"
      by (simp add: new_effects_def)
    ultimately show ?thesis by blast
  qed
  show ?thesis
    by (intro conjI allI impI)
       (erule returns, (elim conjE, erule (2) drops), erule render_result [OF assms])
qed

theorem render_drops_staged_when_full_witness:
  "scale (in_flight_window\<lparr>redraw_pending := False, staged_buffer := Some 2\<rparr>) \<noteq> 0
   \<and> \<not> redraw_pending (in_flight_window\<lparr>redraw_pending := False, staged_buffer := Some 2\<rparr>)
   \<and> next_buffer (in_flight_window\<lparr>redraw_pending := False, staged_buffer := Some 2\<rparr>)
       = Some 1
   \<and> staged_buffer (in_flight_window\<lparr>redraw_pending := False, staged_buffer := Some 2\<rparr>)
       = Some 2
   \<and> (\<exists>w'. gst_wl_window_render plain_env []
               (in_flight_window\<lparr>redraw_pending := False, staged_buffer := Some 2\<rparr>)
               (Some 3) None = Some (w', False)
          \<and> next_buffer w' = Some 1 \<and> staged_buffer w' = Some 3
          \<and> new_effects
               (render_enter
                  (in_flight_window\<lparr>redraw_pending := False, staged_buffer := Some 2\<rparr>)
                  (Some 3) None) w'
              = [Buffer_unref 2, Mutex_unlock Window_lock])"
proof -
  let ?w = "in_flight_window\<lparr>redraw_pending := False, staged_buffer := Some 2\<rparr>"
  have h: "scale ?w \<noteq> 0" "\<not> redraw_pending ?w" "next_buffer ?w = Some 1"
    "staged_buffer ?w = Some 2"
    by (simp_all add: in_flight_window_def render_leave_def render_enter_def Let_def
        gst_wl_window_init_def unref_buffer_def)
  note t = render_drops_staged_when_full
    [OF h(1), where e = plain_env and ds = "[]" and buffer = "Some 3" and info = None]
  from t h show ?thesis by blast
qed

lemma finalize_effects:
  "\<exists>post. effects (gst_wl_window_finalize w) = effects w
       @ [Callback_destroy Frame_callback, Callback_destroy Commit_callback]
       @ [Mutex_lock Window_lock, Cond_signal Redraw_wait, Mutex_unlock Window_lock]
       @ [Cond_clear Configure_cond, Cond_clear Redraw_wait,
          Mutex_clear Configure_mutex, Mutex_clear Window_lock, Mutex_clear Commit_lock]
       @ (case staged_buffer w of None \<Rightarrow> [] | Some x \<Rightarrow> [Buffer_unref x])
       @ post"
  by (simp add: gst_wl_window_finalize_def Let_def unref_buffer_emit)

lemma finalize_fields [simp]:
  "\<not> redraw_pending (gst_wl_window_finalize w)"
  "\<not> frame_callback_set (gst_wl_window_finalize w)"
  "\<not> commit_callback_set (gst_wl_window_finalize w)"
  by (simp_all add: gst_wl_window_finalize_def Let_def unref_buffer_emit)

subsection \<open>The configure handshake of the constructor\<close>

lemma no_wait_simps [simp]:
  "\<not> no_wait (Cond_wait_until cv m t)"
  "\<not> no_wait Log_warning"
  "no_wait (Mutex_lock m)" "no_wait (Mutex_unlock m)" "no_wait (Cond_signal cv)"
  "no_wait (Buffer_unref x)" "no_wait (Surface_commit s)" "no_wait (Surface_attach s xo)"
  "no_wait (Surface_frame s)" "no_wait (Surface_set_buffer_scale s a)"
  "no_wait (Surface_damage_buffer s)" "no_wait Subsurface_set_sync"
  "no_wait Subsurface_set_desync" "no_wait (Get_release x)"
  "no_wait (Callback_destroy cb)" "no_wait (Signal_emit g)" "no_wait (Xdg_ack_configure a)"
  "no_wait (Subsurface_set_position s a b)" "no_wait (Surface_set_buffer_transform s tr)"
  "no_wait (Surface_set_opaque_region s)" "no_wait (Viewport_set_destination s a b)"
  "no_wait (Viewport_set_source a b a' b')" "no_wait (Border_attach single a b)"
  "no_wait (Add_listener p)" "no_wait Xdg_set_app_id" "no_wait Pointer_add_listener"
  "no_wait Touch_add_listener" "no_wait (Xdg_set_fullscreen f)" "no_wait Display_flush"
  "no_wait Display_sync" "no_wait Fullscreen_present_surface"
  by (simp_all add: no_wait_def)

lemma geometry_request_no_wait: "geometry_request x \<Longrightarrow> no_wait x"
  by (cases x) (simp_all add: geometry_request_def)

text \<open>Fields that only the constructor and the shell events touch.\<close>

lemma emit_shell_fields [simp]:
  "fullscreen_width (emit es w) = fullscreen_width w"
  "fullscreen_height (emit es w) = fullscreen_height w"
  by (simp_all add: emit_def)

lemma resize_shell_fields [simp]:
  "fullscreen_width (gst_wl_window_resize_video_surface e c w) = fullscreen_width w"
  "fullscreen_height (gst_wl_window_resize_video_surface e c w) = fullscreen_height w"
  by (simp_all add: gst_wl_window_resize_video_surface_def Let_def)

lemma resize_no_wait:
  "\<exists>es. effects (gst_wl_window_resize_video_surface e c w) = effects w @ es
     \<and> (\<forall>x\<in>set es. no_wait x)"
  by (simp add: gst_wl_window_resize_video_surface_def Let_def)

lemma borders_shell:
  "\<exists>es. gst_wl_window_update_borders e w = emit es w \<and> (\<forall>x\<in>set es. no_wait x)"
  using borders_emit [of e w] geometry_request_no_wait by blast

lemma position_area_shell:
  "\<exists>es. position_area e w = emit es w \<and> (\<forall>x\<in>set es. no_wait x)"
proof -
  let ?pos = "if area_subsurface w
              then [Subsurface_set_position Area_surface
                      (rect_x (render_rectangle w)) (rect_y (render_rectangle w))]
              else []"
  have p: "position_area e w
      = (if is_area_surface_mapped w then gst_wl_window_update_borders e (emit ?pos w)
         else emit ?pos w)"
    by (simp add: position_area_def)
  obtain es where es: "gst_wl_window_update_borders e (emit ?pos w) = emit es (emit ?pos w)"
      "\<forall>x\<in>set es. no_wait x"
    using borders_shell by blast
  have q: "position_area e w = emit (?pos @ (if is_area_surface_mapped w then es else [])) w"
    using es(1) by (simp add: p)
  have "\<forall>x\<in>set (?pos @ (if is_area_surface_mapped w then es else [])). no_wait x"
    using es(2) by auto
  with q show ?thesis by blast
qed

lemma geometry_shell:
  "\<exists>es. effects (gst_wl_window_update_geometry e w) = effects w @ es
     \<and> (\<forall>x\<in>set es. no_wait x)"
  "fullscreen_width (gst_wl_window_update_geometry e w) = fullscreen_width w"
  "fullscreen_height (gst_wl_window_update_geometry e w) = fullscreen_height w"
proof -
  obtain es where es: "position_area e w = emit es w" "\<forall>x\<in>set es. no_wait x"
    using position_area_shell by blast
  obtain es' where es':
      "effects (gst_wl_window_resize_video_surface e True
                  (emit (es @ [Mutex_lock Commit_lock, Subsurface_set_sync]) w))
         = effects w @ es @ [Mutex_lock Commit_lock, Subsurface_set_sync] @ es'"
      "\<forall>x\<in>set es'. no_wait x"
    using resize_no_wait
      [of e True "emit (es @ [Mutex_lock Commit_lock, Subsurface_set_sync]) w"]
    by auto
  show "\<exists>es. effects (gst_wl_window_update_geometry e w) = effects w @ es
     \<and> (\<forall>x\<in>set es. no_wait x)"
    using es es' by (auto simp add: gst_wl_window_update_geometry_def Let_def)
  show "fullscreen_width (gst_wl_window_update_geometry e w) = fullscreen_width w"
    "fullscreen_height (gst_wl_window_update_geometry e w) = fullscreen_height w"
    using es(1) by (simp_all add: gst_wl_window_update_geometry_def Let_def)
qed

lemma set_rr_shell:
  "\<exists>es. effects (gst_wl_window_set_render_rectangle e w x y wd ht) = effects w @ es
     \<and> (\<forall>x\<in>set es. no_wait x)"
  "fullscreen_width (gst_wl_window_set_render_rectangle e w x y wd ht) = fullscreen_width w"
  "fullscreen_height (gst_wl_window_set_render_rectangle e w x y wd ht) = fullscreen_height w"
proof -
  let ?w = "w\<lparr>render_rectangle := \<lparr>rect_x = x, rect_y = y, rect_w = wd, rect_h = ht\<rparr>\<rparr>"
  show "\<exists>es. effects (gst_wl_window_set_render_rectangle e w x y wd ht) = effects w @ es
     \<and> (\<forall>x\<in>set es. no_wait x)"
    using geometry_shell(1) [of e ?w]
    by (auto simp add: gst_wl_window_set_render_rectangle_def)
  show "fullscreen_width (gst_wl_window_set_render_rectangle e w x y wd ht) = fullscreen_width w"
    "fullscreen_height (gst_wl_window_set_render_rectangle e w x y wd ht) = fullscreen_height w"
    by (simp_all add: gst_wl_window_set_render_rectangle_def geometry_shell(2,3))
qed

lemma attach_shell [simp]:
  "configured (attach_buffer e b w) = configured w"
  "fullscreen_width (attach_buffer e b w) = fullscreen_width w"
  "fullscreen_height (attach_buffer e b w) = fullscreen_height w"
  using attach_shape [of e b w] by auto

lemma detach_shell [simp]:
  "configured (detach_buffers w) = configured w"
  "fullscreen_width (detach_buffers w) = fullscreen_width w"
  "fullscreen_height (detach_buffers w) = fullscreen_height w"
  by (simp_all add: detach_buffers_def)

lemma apply_video_info_shell [simp]:
  "fullscreen_width (apply_video_info e i w) = fullscreen_width w"
  "fullscreen_height (apply_video_info e i w) = fullscreen_height w"
  using apply_video_info_emit [of e i w] by (auto simp add: info_fields_def)

lemma commit_buffer_shell [simp]:
  "configured (gst_wl_window_commit_buffer e w b) = configured w"
  "fullscreen_width (gst_wl_window_commit_buffer e w b) = fullscreen_width w"
  "fullscreen_height (gst_wl_window_commit_buffer e w b) = fullscreen_height w"
  by (cases b; cases "next_video_info w";
      simp add: gst_wl_window_commit_buffer_def Let_def)+

lemma commit_requests_no_wait:
  assumes "\<forall>x\<in>set vp. geometry_request x" "\<forall>x\<in>set brd. geometry_request x"
  shows "\<forall>x\<in>set (commit_requests e w b vp brd). no_wait x"
  using assms
  by (auto simp add: commit_requests_def buffer_requests_def info_requests_def
      geometry_request_no_wait split: option.splits if_splits)

lemma commit_callback_shell:
  "\<exists>es. effects (commit_callback e w) = effects w @ es \<and> (\<forall>x\<in>set es. no_wait x)"
  "configured (commit_callback e w) = configured w"
  "fullscreen_width (commit_callback e w) = fullscreen_width w"
  "fullscreen_height (commit_callback e w) = fullscreen_height w"
proof -
  obtain vp brd where eff: "effects (commit_callback e w) = effects w
       @ [Callback_destroy Commit_callback, Mutex_lock Window_lock, Mutex_unlock Window_lock]
       @ commit_requests e w (next_buffer w) vp brd
       @ (case next_buffer w of None \<Rightarrow> [] | Some x \<Rightarrow> [Buffer_unref x])"
     and g: "\<forall>x\<in>set vp. geometry_request x" "\<forall>x\<in>set brd. geometry_request x"
    using commit_callback_effects by blast
  have "\<forall>x\<in>set ([Callback_destroy Commit_callback, Mutex_lock Window_lock,
                   Mutex_unlock Window_lock]
       @ commit_requests e w (next_buffer w) vp brd
       @ (case next_buffer w of None \<Rightarrow> [] | Some x \<Rightarrow> [Buffer_unref x])). no_wait x"
    using commit_requests_no_wait [OF g, where e = e and w = w and b = "next_buffer w"]
    by (auto split: option.splits)
  with eff show "\<exists>es. effects (commit_callback e w) = effects w @ es
      \<and> (\<forall>x\<in>set es. no_wait x)"
    by blast
  show "configured (commit_callback e w) = configured w"
    "fullscreen_width (commit_callback e w) = fullscreen_width w"
    "fullscreen_height (commit_callback e w) = fullscreen_height w"
    by (simp_all add: commit_callback_unfold)
qed

lemma frame_redraw_shell:
  "\<exists>es. effects (frame_redraw_callback e w) = effects w @ es \<and> (\<forall>x\<in>set es. no_wait x)"
  "configured (frame_redraw_callback e w) = configured w"
  "fullscreen_width (frame_redraw_callback e w) = fullscreen_width w"
  "fullscreen_height (frame_redraw_callback e w) = fullscreen_height w"
proof -
  obtain vp brd where eff: "effects (frame_redraw_callback e w) = effects w
       @ [Callback_destroy Frame_callback, Mutex_lock Window_lock,
          Cond_signal Redraw_wait, Mutex_unlock Window_lock]
       @ (if staged_buffer w \<noteq> None \<or> clear_window w
          then commit_requests e w (staged_buffer w) vp brd else [])
       @ (case staged_buffer w of None \<Rightarrow> [] | Some x \<Rightarrow> [Buffer_unref x])"
     and g: "\<forall>x\<in>set vp. geometry_request x" "\<forall>x\<in>set brd. geometry_request x"
    using frame_redraw_effects by blast
  have "\<forall>x\<in>set ([Callback_destroy Frame_callback, Mutex_lock Window_lock,
          Cond_signal Redraw_wait, Mutex_unlock Window_lock]
       @ (if staged_buffer w \<noteq> None \<or> clear_window w
          then commit_requests e w (staged_buffer w) vp brd else [])
       @ (case staged_buffer w of None \<Rightarrow> [] | Some x \<Rightarrow> [Buffer_unref x])). no_wait x"
    using commit_requests_no_wait [OF g, where e = e and w = w and b = "staged_buffer w"]
    by (auto split: option.splits)
  with eff show "\<exists>es. effects (frame_redraw_callback e w) = effects w @ es
      \<and> (\<forall>x\<in>set es. no_wait x)"
    by blast
  show "configured (frame_redraw_callback e w) = configured w"
    "fullscreen_width (frame_redraw_callback e w) = fullscreen_width w"
    "fullscreen_height (frame_redraw_callback e w) = fullscreen_height w"
    by (simp_all add: frame_redraw_unfold unref_buffer_emit frame_unlocked_def)
qed

lemma toplevel_configure_shell:
  "\<exists>es. effects (handle_xdg_toplevel_configure e w width height states) = effects w @ es
     \<and> (\<forall>x\<in>set es. no_wait x)"
  "configured (handle_xdg_toplevel_configure e w width height states) = configured w"
  "fullscreen_width (handle_xdg_toplevel_configure e w width height states)
     = fullscreen_width w"
  "fullscreen_height (handle_xdg_toplevel_configure e w width height states)
     = fullscreen_height w"
proof -
  obtain es where es:
      "effects (gst_wl_window_set_render_rectangle e (emit [Mutex_lock Render_lock] w)
                  0 0 width height)
         = effects w @ [Mutex_lock Render_lock] @ es"
      "\<forall>x\<in>set es. no_wait x"
    using set_rr_shell(1) [of e "emit [Mutex_lock Render_lock] w" 0 0 width height] by auto
  have "\<forall>x\<in>set ([Mutex_lock Render_lock] @ es @ [Mutex_unlock Render_lock]). no_wait x"
    using es(2) by auto
  then show "\<exists>es. effects (handle_xdg_toplevel_configure e w width height states)
      = effects w @ es \<and> (\<forall>x\<in>set es. no_wait x)"
    using es(1)
    by (cases "width \<le>s 2 * RESIZE_MARGIN \<or> height \<le>s 2 * RESIZE_MARGIN")
       (auto simp add: handle_xdg_toplevel_configure_def)
  show "configured (handle_xdg_toplevel_configure e w width height states) = configured w"
    "fullscreen_width (handle_xdg_toplevel_configure e w width height states)
       = fullscreen_width w"
    "fullscreen_height (handle_xdg_toplevel_configure e w width height states)
       = fullscreen_height w"
    by (simp_all add: handle_xdg_toplevel_configure_def set_rr_shell(2,3))
qed

lemma deliver_shell:
  "\<exists>es. effects (deliver e d w) = effects w @ es \<and> (\<forall>x\<in>set es. no_wait x)"
  "fullscreen_width (deliver e d w) = fullscreen_width w"
  "fullscreen_height (deliver e d w) = fullscreen_height w"
  "\<not> is_surface_configure d \<Longrightarrow> configured (deliver e d w) = configured w"
proof -
  show "\<exists>es. effects (deliver e d w) = effects w @ es \<and> (\<forall>x\<in>set es. no_wait x)"
  proof (cases d)
    case Ev_commit_done
    then show ?thesis using commit_callback_shell(1) [of e w] by auto
  next
    case Ev_frame_done
    then show ?thesis using frame_redraw_shell(1) [of e w] by auto
  next
    case (Ev_toplevel_configure width height states)
    then show ?thesis
      using toplevel_configure_shell(1) [of e w width height states] by auto
  next
    case Ev_toplevel_close
    then show ?thesis by (simp add: handle_xdg_toplevel_close_def)
  next
    case (Ev_surface_configure serial)
    then show ?thesis by (simp add: handle_xdg_surface_configure_def)
  qed
  show "fullscreen_width (deliver e d w) = fullscreen_width w"
    "fullscreen_height (deliver e d w) = fullscreen_height w"
    by (cases d; simp add: commit_callback_shell frame_redraw_shell toplevel_configure_shell
        handle_xdg_toplevel_close_def handle_xdg_surface_configure_def)+
  show "\<not> is_surface_configure d \<Longrightarrow> configured (deliver e d w) = configured w"
    by (cases d; simp add: commit_callback_shell frame_redraw_shell toplevel_configure_shell
        handle_xdg_toplevel_close_def is_surface_configure_def)
qed

lemma deliver_all_snoc: "deliver_all e (ds @ [d]) w = deliver e d (deliver_all e ds w)"
  by (simp add: deliver_all_def)

lemma deliver_all_shell:
  "\<exists>es. effects (deliver_all e ds w) = effects w @ es \<and> (\<forall>x\<in>set es. no_wait x)"
  "fullscreen_width (deliver_all e ds w) = fullscreen_width w"
  "fullscreen_height (deliver_all e ds w) = fullscreen_height w"
  "\<forall>d\<in>set ds. \<not> is_surface_configure d \<Longrightarrow> configured (deliver_all e ds w) = configured w"
proof -
  show "\<exists>es. effects (deliver_all e ds w) = effects w @ es \<and> (\<forall>x\<in>set es. no_wait x)"
  proof (induction ds rule: rev_induct)
    case Nil
    show ?case by (simp add: deliver_all_def)
  next
    case (snoc d ds)
    then obtain es where es: "effects (deliver_all e ds w) = effects w @ es"
        "\<forall>x\<in>set es. no_wait x" by blast
    obtain es' where es': "effects (deliver e d (deliver_all e ds w))
          = effects (deliver_all e ds w) @ es'" "\<forall>x\<in>set es'. no_wait x"
      using deliver_shell(1) by blast
    have "effects (deliver_all e (ds @ [d]) w) = effects w @ (es @ es')"
      using es(1) es'(1) by (simp add: deliver_all_snoc)
    moreover have "\<forall>x\<in>set (es @ es'). no_wait x" using es(2) es'(2) by auto
    ultimately show ?case by blast
  qed
  show "fullscreen_width (deliver_all e ds w) = fullscreen_width w"
    by (induction ds rule: rev_induct)
       (simp_all add: deliver_all_snoc deliver_shell(2), simp add: deliver_all_def)
  show "fullscreen_height (deliver_all e ds w) = fullscreen_height w"
    by (induction ds rule: rev_induct)
       (simp_all add: deliver_all_snoc deliver_shell(3), simp add: deliver_all_def)
  show "\<forall>d\<in>set ds. \<not> is_surface_configure d \<Longrightarrow>
      configured (deliver_all e ds w) = configured w"
    by (induction ds rule: rev_induct)
       (simp_all add: deliver_all_snoc deliver_shell(4), simp add: deliver_all_def)
qed

lemma emit_update_shell [simp]:
  "(emit es w)\<lparr>xdg_surface := p\<rparr> = emit es (w\<lparr>xdg_surface := p\<rparr>)"
  "(emit es w)\<lparr>xdg_toplevel := p\<rparr> = emit es (w\<lparr>xdg_toplevel := p\<rparr>)"
  by (simp_all add: emit_def)

lemma wait_until_shell [simp]:
  "effects (wait_until e w) = effects w @ [timed_wait e]"
  "configured (wait_until e w) = configured w"
  "fullscreen_width (wait_until e w) = fullscreen_width w"
  "fullscreen_height (wait_until e w) = fullscreen_height w"
  by (simp_all add: wait_until_def timed_wait_def)

lemma configure_wait_effects:
  "\<exists>es. effects (configure_wait e ws w) = effects w @ es
     \<and> (\<forall>x\<in>set es. no_wait x \<or> x = timed_wait e \<or> x = Log_warning)"
proof (induction ws arbitrary: w)
  case Nil
  show ?case by simp
next
  case (Cons k ks)
  let ?w1 = "deliver_all e (delivered k) (wait_until e w)"
  obtain es1 where es1: "effects ?w1 = effects w @ timed_wait e # es1"
      "\<forall>x\<in>set es1. no_wait x"
    using deliver_all_shell(1) [of e "delivered k" "wait_until e w"] by auto
  show ?case
  proof (cases "configured w")
    case True
    then show ?thesis by simp
  next
    case False
    show ?thesis
    proof (cases "signalled k")
      case True
      obtain es2 where es2: "effects (configure_wait e ks ?w1) = effects ?w1 @ es2"
          "\<forall>x\<in>set es2. no_wait x \<or> x = timed_wait e \<or> x = Log_warning"
        using Cons.IH by blast
      have "effects (configure_wait e (k # ks) w) = effects w @ (timed_wait e # es1 @ es2)"
        using \<open>\<not> configured w\<close> True es1(1) es2(1) by simp
      moreover have "\<forall>x\<in>set (timed_wait e # es1 @ es2).
          no_wait x \<or> x = timed_wait e \<or> x = Log_warning"
        using es1(2) es2(2) by auto
      ultimately show ?thesis by blast
    next
      case False
      have "effects (configure_wait e (k # ks) w)
          = effects w @ (timed_wait e # es1 @ [Log_warning])"
        using \<open>\<not> configured w\<close> False es1(1) by simp
      moreover have "\<forall>x\<in>set (timed_wait e # es1 @ [Log_warning]).
          no_wait x \<or> x = timed_wait e \<or> x = Log_warning"
        using es1(2) by auto
      ultimately show ?thesis by blast
    qed
  qed
qed

lemma configure_wait_fields [simp]:
  "fullscreen_width (configure_wait e ws w) = fullscreen_width w"
  "fullscreen_height (configure_wait e ws w) = fullscreen_height w"
  by (induction ws arbitrary: w) (simp_all add: deliver_all_shell)

lemma configure_wait_timeout:
  assumes "\<not> configured w"
    and "\<forall>k\<in>set ws. \<forall>d\<in>set (delivered k). \<not> is_surface_configure d"
  shows "\<not> configured (configure_wait e ws w)
     \<and> Log_warning \<in> set (new_effects w (configure_wait e ws w))"
  using assms
proof (induction ws arbitrary: w)
  case Nil
  then show ?case by (simp add: new_effects_def)
next
  case (Cons k ks)
  let ?w1 = "deliver_all e (delivered k) (wait_until e w)"
  have quiet: "\<forall>d\<in>set (delivered k). \<not> is_surface_configure d" using Cons.prems(2) by simp
  have c1: "\<not> configured ?w1"
    using Cons.prems(1) deliver_all_shell(4) [OF quiet, of e "wait_until e w"] by simp
  obtain es1 where es1: "effects ?w1 = effects w @ es1"
    using deliver_all_shell(1) [of e "delivered k" "wait_until e w"] by auto
  show ?case
  proof (cases "signalled k")
    case True
    have ih: "\<not> configured (configure_wait e ks ?w1)
        \<and> Log_warning \<in> set (new_effects ?w1 (configure_wait e ks ?w1))"
      using Cons.IH [OF c1] Cons.prems(2) by simp
    obtain es2 where es2: "effects (configure_wait e ks ?w1) = effects ?w1 @ es2"
      using configure_wait_effects by blast
    have "Log_warning \<in> set es2" using ih es2 by (simp add: new_effects_eq)
    then have "Log_warning \<in> set (new_effects w (configure_wait e ks ?w1))"
      using es1 es2 by (simp add: new_effects_def)
    then show ?thesis using Cons.prems(1) True ih by simp
  next
    case False
    then show ?thesis
      using Cons.prems(1) c1 es1 by (simp add: new_effects_def)
  qed
qed

lemma initial_render_rectangle_shell:
  "\<exists>es. effects (initial_render_rectangle e info fullscreen w) = effects w @ es
     \<and> (\<forall>x\<in>set es. no_wait x)"
  "configured (initial_render_rectangle e info fullscreen w) = configured w"
  using set_rr_shell(1) [of e w 0 0]
  by (auto simp add: initial_render_rectangle_def)

lemma initial_render_rectangle_rect:
  "\<not> (xdg_wm_base e \<and> fullscreen) \<Longrightarrow>
     render_rectangle (initial_render_rectangle e info fullscreen w)
       = (if 0 <s preferred_width e \<and> 0 <s preferred_height e
          then \<lparr>rect_x = 0, rect_y = 0, rect_w = preferred_width e,
                 rect_h = preferred_height e\<rparr>
          else if fullscreen_width w \<le>s 0
          then \<lparr>rect_x = 0, rect_y = 0,
                 rect_w = uint64_scale_int_round e (info_width info) (info_par_n info)
                            (info_par_d info),
                 rect_h = info_height info\<rparr>
          else \<lparr>rect_x = 0, rect_y = 0, rect_w = fullscreen_width w,
                 rect_h = fullscreen_height w\<rparr>)"
  by (simp add: initial_render_rectangle_def set_rr_rect)

lemma no_wait_count:
  "\<forall>x\<in>set es. no_wait x \<Longrightarrow> count_list es (Cond_wait_until cv m t) = 0"
  by (auto simp add: count_list_0_iff)

lemma configure_deadline_value: "configure_deadline e = monotonic_time e + 100000"
  by (simp add: configure_deadline_def G_TIME_SPAN_MILLISECOND_def)

text \<open>
  The handshake of C9, for every behaviour of the display thread. With the xdg shell
  present and its objects created, \<^verbatim>\<open>gst_wl_window_new_toplevel\<close>
  returns a window whatever the display thread does meanwhile: no behaviour of the wait
  makes it fail or keeps it from returning. Every timed wait of the call is a wait on the
  configure condition with the deadline "clock at entry plus 100 ms" (the clock counts
  microseconds, so 100000). When no configure event of the xdg surface is delivered, the
  window is returned unconfigured and a warning is logged; when nothing at all happens
  there is exactly one wait, the one that ends at the deadline. Unless fullscreen was
  asked for, the returned window holds a render rectangle at the origin: of the preferred
  size of the display when it has one, else of the size of the video when no fullscreen
  size is known, else of the fullscreen size.
\<close>

theorem new_toplevel_survives_configure_timeout:
  assumes "xdg_wm_base e" "xdg_surface_created e" "xdg_toplevel_created e"
    and "scale self \<noteq> 0"
  shows "\<exists>w'. gst_wl_window_new_toplevel e ws self info fullscreen = Some w'
     \<and> (\<forall>cv m t. Cond_wait_until cv m t \<in> set (new_effects self w') \<longrightarrow>
           cv = Configure_cond \<and> m = Configure_mutex \<and> t = monotonic_time e + 100000)
     \<and> ((\<forall>k\<in>set ws. \<forall>d\<in>set (delivered k). \<not> is_surface_configure d) \<longrightarrow>
           \<not> configured w' \<and> Log_warning \<in> set (new_effects self w'))
     \<and> (ws = [] \<longrightarrow>
           count_list (new_effects self w')
             (Cond_wait_until Configure_cond Configure_mutex (monotonic_time e + 100000)) = 1)
     \<and> (\<not> fullscreen \<longrightarrow>
           render_rectangle w'
             = (if 0 <s preferred_width e \<and> 0 <s preferred_height e
                then \<lparr>rect_x = 0, rect_y = 0, rect_w = preferred_width e,
                       rect_h = preferred_height e\<rparr>
                else if fullscreen_width self \<le>s 0
                then \<lparr>rect_x = 0, rect_y = 0,
                       rect_w = uint64_scale_int_round e (info_width info) (info_par_n info)
                                  (info_par_d info),
                       rect_h = info_height info\<rparr>
                else \<lparr>rect_x = 0, rect_y = 0, rect_w = fullscreen_width self,
                       rect_h = fullscreen_height self\<rparr>))"
proof -
  let ?pre = "[Add_listener Xdg_surface, Add_listener Xdg_toplevel, Xdg_set_app_id]
     @ (if display_pointer e then [Pointer_add_listener] else [])
     @ (if display_touch e then [Touch_add_listener] else [])
     @ [Xdg_set_fullscreen fullscreen, Surface_commit Area_surface, Display_flush,
        Mutex_lock Configure_mutex]"
  let ?w6 = "emit ?pre (self\<lparr>xdg_surface := True, xdg_toplevel := True, configured := False\<rparr>)"
  let ?w7 = "configure_wait e ws ?w6"
  let ?w8 = "emit [Mutex_unlock Configure_mutex] ?w7"
  let ?w' = "initial_render_rectangle e info fullscreen ?w8"
  have result: "gst_wl_window_new_toplevel e ws self info fullscreen = Some ?w'"
    using assms(1-3)
    by (simp add: gst_wl_window_new_toplevel_def Let_def gst_wl_window_ensure_fullscreen_def)
  have pre: "\<forall>x\<in>set ?pre. no_wait x" by auto
  obtain es7 where es7: "effects ?w7 = effects ?w6 @ es7"
      "\<forall>x\<in>set es7. no_wait x \<or> x = timed_wait e \<or> x = Log_warning"
    using configure_wait_effects by blast
  obtain es9 where es9: "effects ?w' = effects ?w8 @ es9" "\<forall>x\<in>set es9. no_wait x"
    using initial_render_rectangle_shell(1) by blast
  have new: "new_effects self ?w' = ?pre @ es7 @ [Mutex_unlock Configure_mutex] @ es9"
    using es7(1) es9(1) by (simp add: new_effects_def)
  have waits: "cv = Configure_cond \<and> m = Configure_mutex \<and> t = monotonic_time e + 100000"
    if "Cond_wait_until cv m t \<in> set (new_effects self ?w')" for cv m t
  proof -
    from that have "Cond_wait_until cv m t \<in> set es7"
      using pre es9(2) unfolding new by auto
    with es7(2) have "Cond_wait_until cv m t = timed_wait e" by auto
    then show ?thesis by (simp add: timed_wait_def configure_deadline_value)
  qed
  have timeout: "\<not> configured ?w' \<and> Log_warning \<in> set (new_effects self ?w')"
    if "\<forall>k\<in>set ws. \<forall>d\<in>set (delivered k). \<not> is_surface_configure d"
  proof -
    have "\<not> configured ?w6" by simp
    from configure_wait_timeout [OF this that, of e]
    have "\<not> configured ?w7" "Log_warning \<in> set es7"
      using es7(1) by (simp_all add: new_effects_eq)
    then show ?thesis
      unfolding new by (simp add: initial_render_rectangle_shell(2))
  qed
  have single: "count_list (new_effects self ?w')
             (Cond_wait_until Configure_cond Configure_mutex (monotonic_time e + 100000)) = 1"
    if "ws = []"
  proof -
    have "es7 = [timed_wait e, Log_warning]"
      using es7(1) that by simp
    then show ?thesis
      unfolding new
      using no_wait_count [OF pre] no_wait_count [OF es9(2)]
      by (simp add: timed_wait_def configure_deadline_value)
  qed
  have rect: "render_rectangle ?w'
             = (if 0 <s preferred_width e \<and> 0 <s preferred_height e
                then \<lparr>rect_x = 0, rect_y = 0, rect_w = preferred_width e,
                       rect_h = preferred_height e\<rparr>
                else if fullscreen_width self \<le>s 0
                then \<lparr>rect_x = 0, rect_y = 0,
                       rect_w = uint64_scale_int_round e (info_width info) (info_par_n info)
                                  (info_par_d info),
                       rect_h = info_height info\<rparr>
                else \<lparr>rect_x = 0, rect_y = 0, rect_w = fullscreen_width self,
                       rect_h = fullscreen_height self\<rparr>)"
    if "\<not> fullscreen"
    using that by (simp add: initial_render_rectangle_rect)
  show ?thesis
    using result waits timeout single rect
    by (intro exI [of _ ?w'] conjI) blast+
qed

theorem new_toplevel_survives_configure_timeout_witness:
  "xdg_wm_base plain_env \<and> xdg_surface_created plain_env \<and> xdg_toplevel_created plain_env
   \<and> scale gst_wl_window_init \<noteq> 0
   \<and> (\<exists>w'. gst_wl_window_new_toplevel plain_env [] gst_wl_window_init
              \<lparr>info_width = 640, info_height = 480, info_par_n = 1, info_par_d = 1,
               info_has_alpha = False\<rparr> False = Some w'
          \<and> \<not> configured w'
          \<and> Log_warning \<in> set (new_effects gst_wl_window_init w')
          \<and> count_list (new_effects gst_wl_window_init w')
               (Cond_wait_until Configure_cond Configure_mutex
                  (monotonic_time plain_env + 100000)) = 1)"
proof -
  have h: "xdg_wm_base plain_env" "xdg_surface_created plain_env"
    "xdg_toplevel_created plain_env" "scale gst_wl_window_init \<noteq> 0"
    by (simp_all add: plain_env_def gst_wl_window_init_def)
  note t = new_toplevel_survives_configure_timeout [OF h, where ws = "[]" and fullscreen = False
      and info = "\<lparr>info_width = 640, info_height = 480, info_par_n = 1, info_par_d = 1,
               info_has_alpha = False\<rparr>"]
  from t have "\<exists>w'. gst_wl_window_new_toplevel plain_env [] gst_wl_window_init
              \<lparr>info_width = 640, info_height = 480, info_par_n = 1, info_par_d = 1,
               info_has_alpha = False\<rparr> False = Some w'
          \<and> \<not> configured w'
          \<and> Log_warning \<in> set (new_effects gst_wl_window_init w')
          \<and> count_list (new_effects gst_wl_window_init w')
               (Cond_wait_until Configure_cond Configure_mutex
                  (monotonic_time plain_env + 100000)) = 1"
    by auto
  with h show ?thesis by blast
qed

text \<open>
  C9 at the input where the code departs from it: the xdg shell, fullscreen asked for, a
  video of 640 by 480, and a display thread that delivers nothing before the deadline. The
  constructor waits once, until the deadline, logs the warning and returns the window, not
  configured. The window still has the render rectangle it was created with, zero by
  zero: the block that gives a new window its size is skipped for an xdg fullscreen
  window, the comment above it saying that the toplevel configure has already set the
  rectangle, and here no configure has arrived. On the same input without fullscreen the
  window gets the size of the video.
\<close>

theorem new_toplevel_fullscreen_timeout_sets_no_rectangle:
  "map_option render_rectangle
     (gst_wl_window_new_toplevel plain_env [] gst_wl_window_init
        \<lparr>info_width = 640, info_height = 480, info_par_n = 1, info_par_d = 1,
         info_has_alpha = False\<rparr> True)
     = Some \<lparr>rect_x = 0, rect_y = 0, rect_w = 0, rect_h = 0\<rparr>
   \<and> map_option configured
       (gst_wl_window_new_toplevel plain_env [] gst_wl_window_init
          \<lparr>info_width = 640, info_height = 480, info_par_n = 1, info_par_d = 1,
           info_has_alpha = False\<rparr> True)
     = Some False
   \<and> map_option (new_effects gst_wl_window_init)
       (gst_wl_window_new_toplevel plain_env [] gst_wl_window_init
          \<lparr>info_width = 640, info_height = 480, info_par_n = 1, info_par_d = 1,
           info_has_alpha = False\<rparr> True)
     = Some [Add_listener Xdg_surface, Add_listener Xdg_toplevel, Xdg_set_app_id,
             Xdg_set_fullscreen True, Surface_commit Area_surface, Display_flush,
             Mutex_lock Configure_mutex,
             Cond_wait_until Configure_cond Configure_mutex 100000,
             Log_warning, Mutex_unlock Configure_mutex]
   \<and> map_option render_rectangle
       (gst_wl_window_new_toplevel plain_env [] gst_wl_window_init
          \<lparr>info_width = 640, info_height = 480, info_par_n = 1, info_par_d = 1,
           info_has_alpha = False\<rparr> False)
     = Some \<lparr>rect_x = 0, rect_y = 0, rect_w = 640, rect_h = 480\<rparr>"
  by (simp add: gst_wl_window_new_toplevel_def Let_def gst_wl_window_ensure_fullscreen_def
      initial_render_rectangle_def plain_env_def gst_wl_window_init_def zero_rectangle_def
      wait_until_def configure_deadline_def G_TIME_SPAN_MILLISECOND_def new_effects_def
      set_rr_rect emit_def)

subsection \<open>Loss of the display\<close>

text \<open>
  Every event but the frame-completion leaves \<open>redraw_pending\<close> as it is, and leaves a
  registered frame callback registered.
\<close>

lemma resize_pending [simp]:
  "redraw_pending (gst_wl_window_resize_video_surface e c w) = redraw_pending w"
  by (simp add: gst_wl_window_resize_video_surface_def Let_def)

lemma position_area_pending [simp]:
  "redraw_pending (position_area e w) = redraw_pending w"
  using position_area_shell [of e w] by auto

lemma geometry_pending [simp]:
  "redraw_pending (gst_wl_window_update_geometry e w) = redraw_pending w"
  by (simp add: gst_wl_window_update_geometry_def Let_def)

lemma set_rr_pending [simp]:
  "redraw_pending (gst_wl_window_set_render_rectangle e w x y wd ht) = redraw_pending w"
  by (simp add: gst_wl_window_set_render_rectangle_def)

lemma deliver_keeps_pending:
  "d \<noteq> Ev_frame_done \<Longrightarrow> redraw_pending (deliver e d w) = redraw_pending w"
  by (cases d)
     (simp_all add: handle_xdg_toplevel_configure_def handle_xdg_toplevel_close_def
        handle_xdg_surface_configure_def)

lemma resize_frame_callback [simp]:
  "frame_callback_set (gst_wl_window_resize_video_surface e c w) = frame_callback_set w"
  by (simp add: gst_wl_window_resize_video_surface_def Let_def)

lemma position_area_frame_callback [simp]:
  "frame_callback_set (position_area e w) = frame_callback_set w"
  using position_area_shell [of e w] by auto

lemma geometry_frame_callback [simp]:
  "frame_callback_set (gst_wl_window_update_geometry e w) = frame_callback_set w"
  by (simp add: gst_wl_window_update_geometry_def Let_def)

lemma set_rr_frame_callback [simp]:
  "frame_callback_set (gst_wl_window_set_render_rectangle e w x y wd ht)
     = frame_callback_set w"
  by (simp add: gst_wl_window_set_render_rectangle_def)

lemma deliver_keeps_frame_callback:
  "d \<noteq> Ev_frame_done \<Longrightarrow> frame_callback_set w \<Longrightarrow> frame_callback_set (deliver e d w)"
  by (cases d)
     (simp_all add: handle_xdg_toplevel_configure_def handle_xdg_toplevel_close_def
        handle_xdg_surface_configure_def)

lemma redraw_wait_blocked:
  "redraw_pending w \<Longrightarrow> Ev_frame_done \<notin> set ds \<Longrightarrow> redraw_wait e ds w = None"
proof (induction ds arbitrary: w)
  case Nil
  then show ?case by simp
next
  case (Cons d ds)
  from Cons.prems have "d \<noteq> Ev_frame_done" by auto
  then have "redraw_pending (deliver e d (emit [Cond_wait Redraw_wait Window_lock] w))"
    using Cons.prems(1) by (simp add: deliver_keeps_pending)
  then show ?case using Cons by simp
qed

lemma render_enter_callbacks [simp]:
  "frame_callback_set (render_enter w buffer info) = frame_callback_set w"
  "commit_callback_set (render_enter w buffer info) = commit_callback_set w"
  by (simp_all add: render_enter_def Let_def split: option.split)

lemma redraw_wait_frame_done:
  assumes "redraw_pending w" "frame_callback_set w"
  shows "\<exists>w1. redraw_wait e (Ev_frame_done # ds) w = Some w1"
proof -
  let ?w1 = "frame_redraw_callback e (emit [Cond_wait Redraw_wait Window_lock] w)"
  have "redraw_wait e (Ev_frame_done # ds) w = redraw_wait e ds ?w1"
    using assms by simp
  also have "\<dots> = Some ?w1" by (simp add: redraw_wait_idle)
  finally show ?thesis by blast
qed

lemma redraw_wait_woken:
  "redraw_pending w \<Longrightarrow> frame_callback_set w \<Longrightarrow> Ev_frame_done \<in> set ds
     \<Longrightarrow> \<exists>w1. redraw_wait e ds w = Some w1"
proof (induction ds arbitrary: w)
  case Nil
  then show ?case by simp
next
  case (Cons d ds)
  show ?case
  proof (cases "d = Ev_frame_done")
    case True
    then show ?thesis using Cons.prems(1,2) redraw_wait_frame_done by blast
  next
    case False
    let ?w1 = "deliver e d (emit [Cond_wait Redraw_wait Window_lock] w)"
    have "redraw_pending ?w1" "frame_callback_set ?w1"
      using False Cons.prems(1,2)
      by (simp_all add: deliver_keeps_pending deliver_keeps_frame_callback)
    moreover have "Ev_frame_done \<in> set ds" using False Cons.prems(3) by auto
    ultimately have "\<exists>w1. redraw_wait e ds ?w1 = Some w1" by (rule Cons.IH)
    then show ?thesis using Cons.prems(1) by simp
  qed
qed

lemma redraw_wait_commit_then_woken:
  assumes "redraw_pending w" "commit_callback_set w" "next_buffer w \<noteq> None"
    "Ev_frame_done \<in> set ds"
  shows "\<exists>w1. redraw_wait e (Ev_commit_done # ds) w = Some w1"
proof -
  let ?w1 = "commit_callback e (emit [Cond_wait Redraw_wait Window_lock] w)"
  have step: "redraw_wait e (Ev_commit_done # ds) w = redraw_wait e ds ?w1"
    using assms by simp
  have "redraw_pending ?w1" "frame_callback_set ?w1"
    using assms by simp_all
  from redraw_wait_woken [OF this assms(4), of e] step show ?thesis by simp
qed

text \<open>
  C8, as the code has it. \<^verbatim>\<open>gst_wl_window_render\<close> has no notion of a lost display and no
  error result. A call on a window without a pending redraw returns, whatever the display
  thread delivers or fails to deliver. A call on a window with a pending redraw waits for
  the frame callback. It returns when a frame-completion event is delivered while the
  frame callback is registered: at once when that event comes first, and, on a window
  whose scale is not zero (the handlers of the other events divide by it), after any
  other events, and also when the commit callback of the buffer in flight runs first and
  registers the frame callback. It does not return as long as no frame-completion
  event is delivered, whatever else is: no other event ends the wait, and a display thread
  that delivers nothing leaves the call blocked. Finalizing the window destroys both
  callbacks, clears \<open>redraw_pending\<close>, so that the wait loop run on the finalized
  window ends at its first test, signals the condition \<^verbatim>\<open>redraw_wait\<close> under the window
  lock, and releases the staged buffer when there is one.
\<close>

theorem render_waits_for_frame_callback:
  "(\<not> redraw_pending w \<longrightarrow>
      (\<exists>w' r. gst_wl_window_render e ds w buffer info = Some (w', r)))
   \<and> (redraw_pending w \<and> frame_callback_set w \<longrightarrow>
        (\<exists>w' r. gst_wl_window_render e (Ev_frame_done # ds) w buffer info = Some (w', r)))
   \<and> (scale w \<noteq> 0 \<and> redraw_pending w \<and> frame_callback_set w
        \<and> Ev_frame_done \<in> set ds \<longrightarrow>
        (\<exists>w' r. gst_wl_window_render e ds w buffer info = Some (w', r)))
   \<and> (scale w \<noteq> 0 \<and> redraw_pending w \<and> commit_callback_set w \<and> next_buffer w \<noteq> None
        \<and> Ev_frame_done \<in> set ds \<longrightarrow>
        (\<exists>w' r. gst_wl_window_render e (Ev_commit_done # ds) w buffer info = Some (w', r)))
   \<and> (redraw_pending w \<and> Ev_frame_done \<notin> set ds \<longrightarrow>
        gst_wl_window_render e ds w buffer info = None)
   \<and> \<not> redraw_pending (gst_wl_window_finalize w)
   \<and> redraw_wait e ds (gst_wl_window_finalize w) = Some (gst_wl_window_finalize w)
   \<and> \<not> frame_callback_set (gst_wl_window_finalize w)
   \<and> \<not> commit_callback_set (gst_wl_window_finalize w)
   \<and> (\<exists>pre post. new_effects w (gst_wl_window_finalize w)
         = pre @ [Mutex_lock Window_lock, Cond_signal Redraw_wait, Mutex_unlock Window_lock]
           @ post)
   \<and> (\<forall>b. staged_buffer w = Some b \<longrightarrow>
         Buffer_unref b \<in> set (new_effects w (gst_wl_window_finalize w)))"
proof -
  have idle: "\<exists>w' r. gst_wl_window_render e ds w buffer info = Some (w', r)"
    if "\<not> redraw_pending w"
  proof -
    have "gst_wl_window_render e ds w buffer info
        = Some (fst (render_leave (render_enter w buffer info) buffer),
                snd (render_leave (render_enter w buffer info) buffer))"
      using that by (simp add: render_idle)
    then show ?thesis by blast
  qed
  have returns: "\<exists>w' r. gst_wl_window_render e ds' w buffer info = Some (w', r)"
    if "\<exists>w1. redraw_wait e ds' (render_enter w buffer info) = Some w1" for ds'
  proof -
    from that obtain w1 where "redraw_wait e ds' (render_enter w buffer info) = Some w1"
      by blast
    then have "gst_wl_window_render e ds' w buffer info
        = Some (fst (render_leave w1 buffer), snd (render_leave w1 buffer))"
      by (simp add: gst_wl_window_render_def)
    then show ?thesis by blast
  qed
  have frame: "\<exists>w' r. gst_wl_window_render e (Ev_frame_done # ds) w buffer info
      = Some (w', r)"
    if "redraw_pending w" "frame_callback_set w"
    using that by (intro returns redraw_wait_frame_done) simp_all
  have woken: "\<exists>w' r. gst_wl_window_render e ds w buffer info = Some (w', r)"
    if "redraw_pending w" "frame_callback_set w" "Ev_frame_done \<in> set ds"
    using that by (intro returns redraw_wait_woken) simp_all
  have commit_frame:
    "\<exists>w' r. gst_wl_window_render e (Ev_commit_done # ds) w buffer info = Some (w', r)"
    if "redraw_pending w" "commit_callback_set w" "next_buffer w \<noteq> None"
      "Ev_frame_done \<in> set ds"
    using that by (intro returns redraw_wait_commit_then_woken) simp_all
  have blocked: "gst_wl_window_render e ds w buffer info = None"
    if "redraw_pending w" "Ev_frame_done \<notin> set ds"
    using that by (simp add: gst_wl_window_render_def redraw_wait_blocked)
  have resumed: "redraw_wait e ds (gst_wl_window_finalize w) = Some (gst_wl_window_finalize w)"
    by (simp add: redraw_wait_idle)
  obtain post where eff: "effects (gst_wl_window_finalize w) = effects w
       @ [Callback_destroy Frame_callback, Callback_destroy Commit_callback]
       @ [Mutex_lock Window_lock, Cond_signal Redraw_wait, Mutex_unlock Window_lock]
       @ [Cond_clear Configure_cond, Cond_clear Redraw_wait,
          Mutex_clear Configure_mutex, Mutex_clear Window_lock, Mutex_clear Commit_lock]
       @ (case staged_buffer w of None \<Rightarrow> [] | Some x \<Rightarrow> [Buffer_unref x])
       @ post"
    using finalize_effects by blast
  let ?post = "[Cond_clear Configure_cond, Cond_clear Redraw_wait,
          Mutex_clear Configure_mutex, Mutex_clear Window_lock, Mutex_clear Commit_lock]
       @ (case staged_buffer w of None \<Rightarrow> [] | Some x \<Rightarrow> [Buffer_unref x])
       @ post"
  have "new_effects w (gst_wl_window_finalize w)
      = [Callback_destroy Frame_callback, Callback_destroy Commit_callback]
        @ [Mutex_lock Window_lock, Cond_signal Redraw_wait, Mutex_unlock Window_lock]
        @ ?post"
    using eff by (simp add: new_effects_eq)
  then have wake: "\<exists>pre post. new_effects w (gst_wl_window_finalize w)
         = pre @ [Mutex_lock Window_lock, Cond_signal Redraw_wait, Mutex_unlock Window_lock]
           @ post"
    by blast
  have staged: "Buffer_unref b \<in> set (new_effects w (gst_wl_window_finalize w))"
    if "staged_buffer w = Some b" for b
    using eff that by (simp add: new_effects_eq)
  show ?thesis
    using idle frame woken commit_frame blocked resumed wake staged
    by (intro conjI) (simp_all)
qed

theorem render_waits_for_frame_callback_witness:
  "\<not> redraw_pending gst_wl_window_init
   \<and> (\<exists>w' r. gst_wl_window_render plain_env [] gst_wl_window_init (Some 1) None
                = Some (w', r))
   \<and> scale in_flight_window \<noteq> 0 \<and> redraw_pending in_flight_window
   \<and> commit_callback_set in_flight_window \<and> next_buffer in_flight_window \<noteq> None
   \<and> (\<exists>w' r. gst_wl_window_render plain_env [Ev_commit_done, Ev_frame_done]
                 in_flight_window (Some 2) None = Some (w', r))
   \<and> Ev_frame_done \<notin> set [Ev_commit_done, Ev_toplevel_close]
   \<and> gst_wl_window_render plain_env [Ev_commit_done, Ev_toplevel_close]
        in_flight_window (Some 2) None = None
   \<and> redraw_pending (in_flight_window\<lparr>frame_callback_set := True\<rparr>)
   \<and> frame_callback_set (in_flight_window\<lparr>frame_callback_set := True\<rparr>)
   \<and> (\<exists>w' r. gst_wl_window_render plain_env [Ev_frame_done]
                 (in_flight_window\<lparr>frame_callback_set := True\<rparr>) (Some 2) None
                = Some (w', r))
   \<and> scale (in_flight_window\<lparr>frame_callback_set := True\<rparr>) \<noteq> 0
   \<and> Ev_frame_done \<in> set [Ev_toplevel_close, Ev_frame_done]
   \<and> (\<exists>w' r. gst_wl_window_render plain_env [Ev_toplevel_close, Ev_frame_done]
                 (in_flight_window\<lparr>frame_callback_set := True\<rparr>) (Some 2) None
                = Some (w', r))
   \<and> staged_buffer (in_flight_window\<lparr>staged_buffer := Some 2\<rparr>) = Some 2
   \<and> Buffer_unref 2
       \<in> set (new_effects (in_flight_window\<lparr>staged_buffer := Some 2\<rparr>)
                (gst_wl_window_finalize (in_flight_window\<lparr>staged_buffer := Some 2\<rparr>)))"
proof -
  have h: "\<not> redraw_pending gst_wl_window_init"
    "scale in_flight_window \<noteq> 0" "redraw_pending in_flight_window"
    "commit_callback_set in_flight_window" "next_buffer in_flight_window \<noteq> None"
    "Ev_frame_done \<notin> set [Ev_commit_done, Ev_toplevel_close]"
    "redraw_pending (in_flight_window\<lparr>frame_callback_set := True\<rparr>)"
    "frame_callback_set (in_flight_window\<lparr>frame_callback_set := True\<rparr>)"
    "staged_buffer (in_flight_window\<lparr>staged_buffer := Some 2\<rparr>) = Some 2"
    "scale (in_flight_window\<lparr>frame_callback_set := True\<rparr>) \<noteq> 0"
    "Ev_frame_done \<in> set [Ev_toplevel_close, Ev_frame_done]"
    by (simp_all add: in_flight_window_def render_leave_def render_enter_def Let_def
        gst_wl_window_init_def unref_buffer_def)
  note t1 = render_waits_for_frame_callback
    [where w = gst_wl_window_init and e = plain_env and ds = "[]" and buffer = "Some 1"
       and info = None]
  note t2 = render_waits_for_frame_callback
    [where w = in_flight_window and e = plain_env and ds = "[Ev_frame_done]"
       and buffer = "Some 2" and info = None]
  note t3 = render_waits_for_frame_callback
    [where w = in_flight_window and e = plain_env
       and ds = "[Ev_commit_done, Ev_toplevel_close]" and buffer = "Some 2" and info = None]
  note t4 = render_waits_for_frame_callback
    [where w = "in_flight_window\<lparr>frame_callback_set := True\<rparr>" and e = plain_env
       and ds = "[]" and buffer = "Some 2" and info = None]
  note t5 = render_waits_for_frame_callback
    [where w = "in_flight_window\<lparr>staged_buffer := Some 2\<rparr>"]
  note t6 = render_waits_for_frame_callback
    [where w = "in_flight_window\<lparr>frame_callback_set := True\<rparr>" and e = plain_env
       and ds = "[Ev_toplevel_close, Ev_frame_done]" and buffer = "Some 2" and info = None]
  have a: "\<exists>w' r. gst_wl_window_render plain_env [] gst_wl_window_init (Some 1) None
                = Some (w', r)"
    using t1 h(1) by blast
  have b: "\<exists>w' r. gst_wl_window_render plain_env [Ev_commit_done, Ev_frame_done]
                 in_flight_window (Some 2) None = Some (w', r)"
    using t2 h(2-5) by simp
  have c: "gst_wl_window_render plain_env [Ev_commit_done, Ev_toplevel_close]
        in_flight_window (Some 2) None = None"
    using t3 h(3,6) by blast
  have d: "\<exists>w' r. gst_wl_window_render plain_env [Ev_frame_done]
                 (in_flight_window\<lparr>frame_callback_set := True\<rparr>) (Some 2) None
                = Some (w', r)"
    using t4 h(7,8) by blast
  have f: "Buffer_unref 2
       \<in> set (new_effects (in_flight_window\<lparr>staged_buffer := Some 2\<rparr>)
                (gst_wl_window_finalize (in_flight_window\<lparr>staged_buffer := Some 2\<rparr>)))"
    using t5 h(9) by blast
  have g: "\<exists>w' r. gst_wl_window_render plain_env [Ev_toplevel_close, Ev_frame_done]
                 (in_flight_window\<lparr>frame_callback_set := True\<rparr>) (Some 2) None
                = Some (w', r)"
    using t6 h(7,8,10,11) by blast
  from a b c d f g h show ?thesis by (intro conjI)
qed

text \<open>
  C8 as stated fails. After one render call on a fresh window buffer 1 is in flight and a
  redraw is pending. With a display thread that delivers nothing more, the next render
  call does not return: it neither fails nor comes back. And finalizing the window in
  that state releases no reference of buffer 1, which the first call had taken.
\<close>

theorem render_blocks_without_display_events:
  "gst_wl_window_render plain_env [] gst_wl_window_init (Some 1) None
     = Some (in_flight_window, True)
   \<and> redraw_pending in_flight_window
   \<and> gst_wl_window_render plain_env [] in_flight_window (Some 2) None = None
   \<and> next_buffer in_flight_window = Some 1
   \<and> Buffer_ref 1 \<in> set (effects (gst_wl_window_finalize in_flight_window))
   \<and> Buffer_unref 1 \<notin> set (effects (gst_wl_window_finalize in_flight_window))"
  by (simp add: gst_wl_window_render_def in_flight_window_def render_leave_def render_enter_def
      Let_def gst_wl_window_init_def unref_buffer_def gst_wl_window_finalize_def destroy_if_def)

end
